theory Spec2Isabelle
  imports Complex_Main "HOL-Library.Word"
begin

unbundle bit_operations_syntax

section \<open>MWTS-3 channel reader (mwts3\_reader.cpp)\<close>

text \<open>
  The reader owns 18 channel buffers of 16-bit samples, a line counter and the list of
  line timestamps (the members that the source uses; the header that declares the class is
  not among the sources). A CCSDS packet is seen here through its payload, a vector of bytes.
  Every element access of the source (\<open>payload[k]\<close>, \<open>channels[c][k]\<close>) is unchecked in
  C++; the model makes the bound explicit and returns \<open>None\<close> for an access outside the
  vector, so that a result \<open>Some r\<close> says that no access went out of bounds.
  The counter \<open>lines\<close> is read as an unbounded natural number.
\<close>

record MWTS3Reader =
  channels :: "16 word list list"
  lines :: nat
  timestamps :: "real list"

text \<open>\<open>std::vector::resize\<close>: truncate, or pad with value-initialised (zero) elements.\<close>

definition resize :: "'a::zero list \<Rightarrow> nat \<Rightarrow> 'a list" where
  "resize xs n = take n xs @ replicate (n - length xs) 0"

text \<open>The constructor: 18 buffers of 98 samples, no line yet.\<close>

definition MWTS3Reader_new :: MWTS3Reader where
  "MWTS3Reader_new =
     \<lparr>channels = map (\<lambda>i. resize [] 98) [0..<18], lines = 0, timestamps = []\<rparr>"

definition payload_at :: "8 word list \<Rightarrow> nat \<Rightarrow> 8 word option" where
  "payload_at p k = (if k < length p then Some (p ! k) else None)"

text \<open>\<open>payload[a] << 8 | payload[a + 1]\<close>, stored into a \<open>uint16_t\<close>.\<close>

definition sample16 :: "8 word list \<Rightarrow> nat \<Rightarrow> 16 word option" where
  "sample16 p a =
     (case payload_at p a of None \<Rightarrow> None
      | Some hi \<Rightarrow>
          (case payload_at p (a + 1) of None \<Rightarrow> None
           | Some lo \<Rightarrow> Some (push_bit 8 (ucast hi) OR ucast lo)))"

text \<open>\<open>channels[c][k] = v\<close> on the array of 18 vectors.\<close>

definition store16 :: "16 word list list \<Rightarrow> nat \<Rightarrow> nat \<Rightarrow> 16 word \<Rightarrow> 16 word list list option" where
  "store16 chs c k v =
     (if c < length chs \<and> k < length (chs ! c)
      then Some (chs[c := (chs ! c)[k := v]]) else None)"

text \<open>A \<open>for\<close> loop over a list of indices whose body may fail.\<close>

fun for_each :: "('i \<Rightarrow> 's \<Rightarrow> 's option) \<Rightarrow> 'i list \<Rightarrow> 's \<Rightarrow> 's option" where
  "for_each body [] s = Some s"
| "for_each body (i # is) s =
     (case body i s of None \<Rightarrow> None | Some s' \<Rightarrow> for_each body is s')"

text \<open>
  The four copy loops of \<open>work\<close> share one shape:
  \<open>for i < n: for c < 18: channels[c][base + i] = sample at pos + (18 * i + c) * 2\<close>.
\<close>

definition copy_samples ::
  "8 word list \<Rightarrow> nat \<Rightarrow> nat \<Rightarrow> nat \<Rightarrow> 16 word list list \<Rightarrow> 16 word list list option" where
  "copy_samples p pos base n chs =
     for_each (\<lambda>i. for_each (\<lambda>c chs'.
         (case sample16 p (pos + (18 * i + c) * 2) of None \<Rightarrow> None
          | Some v \<Rightarrow> store16 chs' c (base + i) v)) [0..<18]) [0..<n] chs"

text \<open>\<open>(packet.payload[0] >> 4) & 0b111\<close>\<close>

definition marker_of :: "8 word \<Rightarrow> nat" where
  "marker_of b = unat (drop_bit 4 b AND 7)"

text \<open>
  \<open>work\<close>. The CCSDS time parser is not part of the reader: it is the parameter
  \<open>parseTime\<close>, applied to the payload from byte 2 on (\<open>&packet.payload[2]\<close>), standing
  for \<open>ccsds::parseCCSDSTimeFullRaw(_, 10957, 10000, 10000)\<close>.
\<close>

definition work :: "(8 word list \<Rightarrow> real) \<Rightarrow> MWTS3Reader \<Rightarrow> 8 word list \<Rightarrow> MWTS3Reader option" where
  "work parseTime r p =
     (if length p < 1018 then Some r
      else
        (case payload_at p 0 of None \<Rightarrow> None
         | Some b0 \<Rightarrow>
            let marker = marker_of b0;
                r1 =
                  (if marker = 1 then
                     (case copy_samples p (224 + 144 * 2) (lines r * 98) 14 (channels r) of
                        None \<Rightarrow> None
                      | Some chs \<Rightarrow>
                          Some (r\<lparr>channels := chs,
                                  timestamps := timestamps r @ [parseTime (drop 2 p) + 12 * 3600],
                                  lines := lines r + 1\<rparr>))
                   else if marker = 2 then
                     map_option (\<lambda>chs. r\<lparr>channels := chs\<rparr>)
                       (copy_samples p 8 (lines r * 98 + 14) 28 (channels r))
                   else if marker = 3 then
                     map_option (\<lambda>chs. r\<lparr>channels := chs\<rparr>)
                       (copy_samples p 8 (lines r * 98 + 42) 28 (channels r))
                   else if marker = 4 then
                     map_option (\<lambda>chs. r\<lparr>channels := chs\<rparr>)
                       (copy_samples p 8 (lines r * 98 + 70) 28 (channels r))
                   else Some r)
            in map_option
                 (\<lambda>r'. r'\<lparr>channels := map (\<lambda>ch. resize ch ((lines r' + 1) * 98)) (channels r')\<rparr>)
                 r1))"

text \<open>The invariant of the reader: 18 buffers, each of \<open>(lines + 1) * 98\<close> samples, and one
  timestamp per line.\<close>

definition reader_inv :: "MWTS3Reader \<Rightarrow> bool" where
  "reader_inv r \<longleftrightarrow>
     length (channels r) = 18 \<and>
     list_all (\<lambda>ch. length ch = (lines r + 1) * 98) (channels r) \<and>
     lines r = length (timestamps r)"

text \<open>The shape of the channel array shared by all states that satisfy the invariant.\<close>

definition shape :: "nat \<Rightarrow> 16 word list list \<Rightarrow> bool" where
  "shape L chs \<longleftrightarrow> length chs = 18 \<and> list_all (\<lambda>ch. length ch = L) chs"

section \<open>LEO scan projector (leo\_projection.cpp)\<close>

text \<open>
  Numbers. The source computes in \<open>float\<close> and \<open>double\<close>; the model computes in \<open>real\<close>, so
  rounding is not modelled and every statement below about a computed value is a statement
  about the exact value of the source's expression. IEEE division by zero does not trap: it
  gives an infinity or a NaN, which are not reals (and HOL's \<open>x / 0 = 0\<close> is something else
  again). Where a claim is about such a case (the azimuth) the model has an explicit NaN;
  elsewhere the statements carry hypotheses under which no divisor is zero.
  In the raster of \<open>generateProjections\<close> the narrowing of a value to \<open>float\<close> and the range
  of \<open>int\<close> are explicit; elsewhere \<open>int\<close> values are unbounded integers, with the range of
  \<open>int\<close> tested where the source converts a float.
\<close>

text \<open>C's \<open>round\<close>: to the nearest integer, halves away from zero.\<close>

definition c_round :: "real \<Rightarrow> int" where
  "c_round x = (if 0 \<le> x then \<lfloor>x + 1 / 2\<rfloor> else \<lceil>x - 1 / 2\<rceil>)"

text \<open>C's conversion of a floating value to \<open>int\<close>: towards zero.\<close>

definition c_trunc :: "real \<Rightarrow> int" where
  "c_trunc x = (if 0 \<le> x then \<lfloor>x\<rfloor> else \<lceil>x\<rceil>)"

text \<open>The values of a 32-bit \<open>int\<close>; converting a float outside them is undefined.\<close>

definition fits_int :: "int \<Rightarrow> bool" where
  "fits_int v \<longleftrightarrow> - (2 ^ 31) \<le> v \<and> v < 2 ^ 31"

text \<open>A float that may be NaN; only the azimuth needs it.\<close>

datatype fval = NaN | Finite real

fun fval_pos :: "fval \<Rightarrow> bool" where
  "fval_pos NaN = False"
| "fval_pos (Finite a) = (a > 0)"

fun fval_add :: "fval \<Rightarrow> real \<Rightarrow> fval" where
  "fval_add NaN b = NaN"
| "fval_add (Finite a) b = Finite (a + b)"

text \<open>
  Modelled from the spec: the header that declares \<open>LEOScanProjectorSettings\<close> is not among
  the sources. The fields are the inputs that section 6 of the specification lists, under
  the names the source uses and in the order of the aggregate initialiser of the MWTS-2
  module. The two-line elements are not a field here: they only reach the orbital oracle,
  which the model takes as already bound to them.
\<close>

record LEOScanProjectorSettings =
  proj_offset :: real
  correction_swath :: real
  correction_res :: real
  correction_height :: real
  instrument_swath :: real
  proj_scale :: real
  az_offset :: real
  tilt_offset :: real
  time_offset :: real
  image_width :: int
  invert_scan :: bool
  utc_timestamps :: "real list"

text \<open>
  Modelled from the spec: \<open>predict_position\<close> of libpredict is not among the sources. The
  fields are those that section 6 gives for the answer of the orbital oracle and that the
  source reads: angles in radians (the source scales them by 57.29578), altitude in km.
\<close>

record predict_position =
  latitude :: real
  longitude :: real
  altitude :: real
  footprint :: real

text \<open>
  Modelled from the spec: the class \<open>TPERSProjection\<close> is not among the sources. Section 6
  gives its interface, \<open>init(altitudeMeters, lonDeg, latDeg, tiltDeg, azimuthDeg)\<close>; an
  object is known here by the five arguments of its \<open>init\<close>.
\<close>

record TPERSProjection =
  pj_altitude :: real
  pj_lon :: real
  pj_lat :: real
  pj_tilt :: real
  pj_az :: fval

definition TPERS_init :: "real \<Rightarrow> real \<Rightarrow> real \<Rightarrow> real \<Rightarrow> fval \<Rightarrow> TPERSProjection" where
  "TPERS_init alt lon lat tilt az =
     \<lparr>pj_altitude = alt, pj_lon = lon, pj_lat = lat, pj_tilt = tilt, pj_az = az\<rparr>"

text \<open>
  What the projector takes from outside. The collaborators: the time conversion and the
  propagator of libpredict, and \<open>TPERSProjection::forward\<close> (longitude and latitude to the
  plane coordinates \<open>x\<close>, \<open>y\<close>). The platform: the rounding of a value to the nearest
  \<open>float\<close>, where the source narrows a \<open>double\<close> or an \<open>int\<close> to \<open>float\<close>, and the \<open>int\<close> that
  results where a value outside the range of \<open>int\<close> is converted or computed (undefined in
  C++; the model only supposes that some \<open>int\<close> results).
\<close>

record collaborators =
  predict_to_julian_double :: "real \<Rightarrow> real"
  predict_orbit :: "real \<Rightarrow> predict_position"
  tpers_forward :: "TPERSProjection \<Rightarrow> real \<Rightarrow> real \<Rightarrow> real \<times> real"
  float_of_double :: "real \<Rightarrow> real"
  int_out_of_range :: "real \<Rightarrow> int"

text \<open>An \<open>int\<close> result, and the conversion of a \<open>double\<close> to \<open>int\<close> (towards zero).\<close>

definition int32 :: "collaborators \<Rightarrow> int \<Rightarrow> int" where
  "int32 ext v = (if fits_int v then v else int_out_of_range ext (real_of_int v))"

definition double_to_int :: "collaborators \<Rightarrow> real \<Rightarrow> int" where
  "double_to_int ext x = int32 ext (c_trunc x)"

text \<open>
  One call of the propagator, as the source makes it:
  \<open>predict_orbit(satellite_object, &position, predict_to_julian_double(t))\<close>. The position is
  the answer of the collaborators; the second component is the record of the calls made so
  far, to which this call adds its time.
\<close>

definition propagate :: "collaborators \<Rightarrow> real \<Rightarrow> real list \<Rightarrow> predict_position \<times> real list" where
  "propagate ext t calls =
     (predict_orbit ext (predict_to_julian_double ext t), calls @ [t])"

text \<open>
  The projector object, with the members that the source uses (the header that declares
  the class is not among the sources). \<open>curvature_correction_factors_inv\<close> is a vector on which the source
  calls \<open>reserve(image_width)\<close> and never \<open>resize\<close> or \<open>push_back\<close>: its \<open>size()\<close> stays 0
  and the source reads and writes the reserved storage through \<open>operator[]\<close>. The model
  holds that storage, one cell per reserved element, \<open>None\<close> for a cell never written.
  \<open>oracle_log\<close> is not a member of the class: it is the record of the calls of the
  propagator, threaded through every \<open>propagate\<close> that the construction makes.
\<close>

record LEOScanProjector =
  settings :: LEOScanProjectorSettings
  curvature_correction_factors_fwd :: "real list"
  curvature_correction_factors_inv :: "int option list"
  corrected_width :: int
  poss :: "predict_position list"
  projs :: "TPERSProjection list"
  sat_footprints :: "real list"
  oracle_log :: "real list"

datatype fault = LengthError | FloatToIntUndefined | OutOfBounds

text \<open>A \<open>for\<close> loop whose body may end the construction with a fault.\<close>

fun for_loop :: "('i \<Rightarrow> 's \<Rightarrow> fault + 's) \<Rightarrow> 'i list \<Rightarrow> 's \<Rightarrow> fault + 's" where
  "for_loop body [] s = Inr s"
| "for_loop body (i # is) s =
     (case body i s of Inl e \<Rightarrow> Inl e | Inr s' \<Rightarrow> for_loop body is s')"

subsection \<open>initCurvatureTable\<close>

definition EARTH_RADIUS :: real where
  "EARTH_RADIUS = 6371"

definition satellite_orbit_radius :: "LEOScanProjectorSettings \<Rightarrow> real" where
  "satellite_orbit_radius s = EARTH_RADIUS + correction_height s"

definition satellite_view_angle :: "LEOScanProjectorSettings \<Rightarrow> real" where
  "satellite_view_angle s = correction_swath s / EARTH_RADIUS"

definition edge_angle :: "LEOScanProjectorSettings \<Rightarrow> real" where
  "edge_angle s =
     - arctan (EARTH_RADIUS * sin (satellite_view_angle s / 2)
               / (cos (satellite_view_angle s / 2) * EARTH_RADIUS - satellite_orbit_radius s))"

text \<open>The value \<open>f\<close> of the loop body for index \<open>i\<close>, with \<open>cw\<close> the corrected width.\<close>

definition curvature_pixel :: "LEOScanProjectorSettings \<Rightarrow> int \<Rightarrow> int \<Rightarrow> real" where
  "curvature_pixel s cw i =
     (let angle = (real_of_int i / real_of_int cw - 0.5) * satellite_view_angle s;
          satellite_angle =
            - arctan (EARTH_RADIUS * sin angle
                      / (cos angle * EARTH_RADIUS - satellite_orbit_radius s))
      in real_of_int (image_width s) * ((satellite_angle / edge_angle s + 1) / 2))"

text \<open>
  One iteration: \<open>push_back(f)\<close>, then \<open>curvature_correction_factors_inv[int(f)] = i\<close>. A store
  outside the reserved storage is a write to memory the vector does not own; the model
  ends the construction there with \<open>OutOfBounds\<close>.
\<close>

definition curvature_body :: "nat \<Rightarrow> LEOScanProjector \<Rightarrow> fault + LEOScanProjector" where
  "curvature_body i P =
     (let f = curvature_pixel (settings P) (corrected_width P) (int i);
          k = c_trunc f;
          P1 = P\<lparr>curvature_correction_factors_fwd := curvature_correction_factors_fwd P @ [f]\<rparr>
      in if 0 \<le> k \<and> k < int (length (curvature_correction_factors_inv P))
         then Inr (P1\<lparr>curvature_correction_factors_inv :=
                        (curvature_correction_factors_inv P)[nat k := Some (int i)]\<rparr>)
         else Inl OutOfBounds)"

text \<open>
  \<open>corrected_width = round(swath / res)\<close> converts a float to \<open>int\<close>, which is undefined for
  a value that is not finite or not in the range of \<open>int\<close>; \<open>reserve\<close> with a negative count
  (a huge \<open>size_t\<close>) throws \<open>std::length_error\<close>.
\<close>

definition initCurvatureTable :: "LEOScanProjector \<Rightarrow> fault + LEOScanProjector" where
  "initCurvatureTable P =
     (let s = settings P in
      if correction_res s = 0
         \<or> \<not> fits_int (c_round (correction_swath s / correction_res s))
      then Inl FloatToIntUndefined
      else if image_width s < 0 then Inl LengthError
      else
        let cw = c_round (correction_swath s / correction_res s);
            P1 = P\<lparr>corrected_width := cw,
                    curvature_correction_factors_inv :=
                      curvature_correction_factors_inv P
                        @ replicate (nat (image_width s) - length (curvature_correction_factors_inv P)) None\<rparr>
        in for_loop curvature_body [0..<nat cw] P1)"

text \<open>
  Names for the parts of the loop body, for the statements below: the expression that
  turns an angle at the centre of the earth into an angle at the satellite (the source
  writes it out twice), the angle of sample \<open>i\<close>, and the cell of the reserved storage
  that sample \<open>i\<close> writes.
\<close>

definition satellite_angle_at :: "LEOScanProjectorSettings \<Rightarrow> real \<Rightarrow> real" where
  "satellite_angle_at s angle =
     - arctan (EARTH_RADIUS * sin angle
               / (cos angle * EARTH_RADIUS - satellite_orbit_radius s))"

definition sample_angle :: "LEOScanProjectorSettings \<Rightarrow> int \<Rightarrow> int \<Rightarrow> real" where
  "sample_angle s cw i = (real_of_int i / real_of_int cw - 0.5) * satellite_view_angle s"

definition raw_bin :: "LEOScanProjectorSettings \<Rightarrow> int \<Rightarrow> int \<Rightarrow> int" where
  "raw_bin s cw i = c_trunc (curvature_pixel s cw i)"

text \<open>The reserved storage after the stores of the samples \<open>xs\<close>, in this order.\<close>

definition written_cells ::
  "LEOScanProjectorSettings \<Rightarrow> int \<Rightarrow> nat list \<Rightarrow> int option list \<Rightarrow> int option list" where
  "written_cells s cw xs cells =
     fold (\<lambda>i cells'. cells'[nat (raw_bin s cw (int i)) := Some (int i)]) xs cells"

text \<open>Sample \<open>i\<close> stores inside a reserved storage of \<open>n\<close> cells.\<close>

definition in_storage :: "LEOScanProjectorSettings \<Rightarrow> int \<Rightarrow> nat \<Rightarrow> nat \<Rightarrow> bool" where
  "in_storage s cw n i \<longleftrightarrow> 0 \<le> raw_bin s cw (int i) \<and> raw_bin s cw (int i) < int n"

text \<open>
  The swath lies within the horizon of the satellite: its half angle at the centre of the
  earth is below a quarter turn, and the line of sight to its edge does not pass the point
  where it is tangent to the sphere.
\<close>

definition within_horizon :: "LEOScanProjectorSettings \<Rightarrow> bool" where
  "within_horizon s \<longleftrightarrow>
     0 < correction_swath s \<and> correction_swath s < pi * EARTH_RADIUS \<and>
     EARTH_RADIUS \<le> satellite_orbit_radius s * cos (satellite_view_angle s / 2)"

subsection \<open>generateProjections\<close>

text \<open>
  The lambda \<open>toSatCoords\<close>, with the projection it captures as an argument. Its parameters
  \<open>lat\<close> and \<open>lon\<close> are \<open>float\<close>: the caller's \<open>double\<close> values are narrowed on the way in.
  \<open>image_x\<close> and \<open>image_y\<close> are \<open>int\<close>.
\<close>

definition toSatCoords ::
  "collaborators \<Rightarrow> TPERSProjection \<Rightarrow> real \<Rightarrow> real \<Rightarrow> int \<Rightarrow> int \<Rightarrow> int \<times> int" where
  "toSatCoords ext pj lat lon map_height map_width =
     (let lat = float_of_double ext lat;
          lon = float_of_double ext lon;
          (x, y) = tpers_forward ext pj lon lat in
      if \<bar>x\<bar> > 10 ^ 10 \<or> \<bar>y\<bar> > 10 ^ 10 then (- 1, - 1)
      else
        let hscale = 4; vscale = 4;
            image_x = double_to_int ext (x * hscale * (real_of_int map_width / 2));
            image_y = double_to_int ext (y * vscale * (real_of_int map_height / 2));
            image_x = double_to_int ext (real_of_int image_x + real_of_int map_width / 2);
            image_y = double_to_int ext (real_of_int image_y + real_of_int map_height / 2)
        in (image_x, int32 ext ((map_height - 1) - image_y)))"

text \<open>
  \<open>atan((c1.second - c2.second) / (c1.first - c2.first)) * 57.29578\<close> on the two pairs of
  \<open>float\<close> to which the source converts the pairs of \<open>int\<close>. There is no test of the divisor:
  for a zero divisor IEEE division gives NaN when the dividend is zero too (and \<open>atan\<close> of
  NaN is NaN), and an infinity with the sign of the dividend otherwise (and \<open>atan\<close> of it is
  a quarter turn with that sign).
\<close>

definition vector_azimuth :: "collaborators \<Rightarrow> int \<times> int \<Rightarrow> int \<times> int \<Rightarrow> fval" where
  "vector_azimuth ext geo_cc1 geo_cc2 =
     (let dy = float_of_double ext (real_of_int (snd geo_cc1))
                 - float_of_double ext (real_of_int (snd geo_cc2));
          dx = float_of_double ext (real_of_int (fst geo_cc1))
                 - float_of_double ext (real_of_int (fst geo_cc2))
      in if dx = 0 then (if dy = 0 then NaN else Finite (sgn dy * (pi / 2) * 57.29578))
         else Finite (arctan (dy / dx) * 57.29578))"

text \<open>
  The block that computes \<open>az\<close> from the motion of the satellite (lines 72 to 86): first the
  two positions that the propagator gives for 200 before and 200 after the time of the
  line, in the units of the timestamps, seen in a 200 by 200 raster around the satellite;
  then the angle of the vector between them. Both take the record of the calls and hand it
  on.
\<close>

definition motion_points ::
  "collaborators \<Rightarrow> predict_position \<Rightarrow> real \<Rightarrow> real list
     \<Rightarrow> ((int \<times> int) \<times> (int \<times> int)) \<times> real list" where
  "motion_points ext satellite_orbit currentTimestamp calls =
     (let pj = TPERS_init (altitude satellite_orbit * 1000) (longitude satellite_orbit * 57.29578)
                 (latitude satellite_orbit * 57.29578) 0 (Finite 0);
          (satellite_pos1, calls) = propagate ext (currentTimestamp - 200) calls;
          (satellite_pos2, calls) = propagate ext (currentTimestamp + 200) calls;
          geo_cc1 = toSatCoords ext pj (latitude satellite_pos1 * 57.29578)
                      (longitude satellite_pos1 * 57.29578) 200 200;
          geo_cc2 = toSatCoords ext pj (latitude satellite_pos2 * 57.29578)
                      (longitude satellite_pos2 * 57.29578) 200 200
      in ((geo_cc1, geo_cc2), calls))"

definition motion_azimuth ::
  "collaborators \<Rightarrow> predict_position \<Rightarrow> real \<Rightarrow> real list \<Rightarrow> fval \<times> real list" where
  "motion_azimuth ext satellite_orbit currentTimestamp calls =
     (let ((geo_cc1, geo_cc2), calls) = motion_points ext satellite_orbit currentTimestamp calls
      in (vector_azimuth ext geo_cc1 geo_cc2, calls))"

text \<open>The sign flag, the quarter turn and the fixed offset (lines 88 to 98).\<close>

definition offset_azimuth :: "LEOScanProjectorSettings \<Rightarrow> fval \<Rightarrow> fval" where
  "offset_azimuth s az =
     (let invertOffset = fval_pos az;
          az = fval_add az (- 90)
      in if invertOffset then fval_add az (- az_offset s) else fval_add az (az_offset s))"

text \<open>One iteration of the loop over the scan lines.\<close>

definition scan_body :: "collaborators \<Rightarrow> nat \<Rightarrow> LEOScanProjector \<Rightarrow> LEOScanProjector" where
  "scan_body ext currentScan P =
     (let s = settings P;
          currentTimestamp = utc_timestamps s ! currentScan + time_offset s;
          (satellite_orbit, calls) = propagate ext currentTimestamp (oracle_log P);
          (az, calls) = motion_azimuth ext satellite_orbit currentTimestamp calls;
          az = offset_azimuth s az;
          pj = TPERS_init (altitude satellite_orbit * 1000) (longitude satellite_orbit * 57.29578)
                 (latitude satellite_orbit * 57.29578) (tilt_offset s) az
      in P\<lparr>poss := poss P @ [satellite_orbit],
            projs := projs P @ [pj],
            sat_footprints := sat_footprints P @ [footprint satellite_orbit],
            oracle_log := calls\<rparr>)"

definition generateProjections :: "collaborators \<Rightarrow> LEOScanProjector \<Rightarrow> LEOScanProjector" where
  "generateProjections ext P =
     fold (scan_body ext) [0..<length (utc_timestamps (settings P))] P"

text \<open>
  What one iteration computes for the scan line \<open>scan\<close>, named for the statements below.
  Each is the first component of what the source's block returns: the record of the calls
  does not bear on it.
\<close>

definition line_timestamp :: "LEOScanProjectorSettings \<Rightarrow> nat \<Rightarrow> real" where
  "line_timestamp s scan = utc_timestamps s ! scan + time_offset s"

definition line_orbit :: "collaborators \<Rightarrow> LEOScanProjectorSettings \<Rightarrow> nat \<Rightarrow> predict_position" where
  "line_orbit ext s scan = fst (propagate ext (line_timestamp s scan) [])"

definition line_points ::
  "collaborators \<Rightarrow> LEOScanProjectorSettings \<Rightarrow> nat \<Rightarrow> (int \<times> int) \<times> (int \<times> int)" where
  "line_points ext s scan =
     fst (motion_points ext (line_orbit ext s scan) (line_timestamp s scan) [])"

definition line_azimuth :: "collaborators \<Rightarrow> LEOScanProjectorSettings \<Rightarrow> nat \<Rightarrow> fval" where
  "line_azimuth ext s scan =
     fst (motion_azimuth ext (line_orbit ext s scan) (line_timestamp s scan) [])"

definition line_projection ::
  "collaborators \<Rightarrow> LEOScanProjectorSettings \<Rightarrow> nat \<Rightarrow> TPERSProjection" where
  "line_projection ext s scan =
     TPERS_init (altitude (line_orbit ext s scan) * 1000) (longitude (line_orbit ext s scan) * 57.29578)
       (latitude (line_orbit ext s scan) * 57.29578) (tilt_offset s)
       (offset_azimuth s (line_azimuth ext s scan))"

definition line_queries :: "LEOScanProjectorSettings \<Rightarrow> nat \<Rightarrow> real list" where
  "line_queries s scan =
     [line_timestamp s scan, line_timestamp s scan - 200, line_timestamp s scan + 200]"

text \<open>
  The point of the raster of the scan line \<open>scan\<close> on which the position that the propagator
  gives for the time \<open>t\<close> falls.
\<close>

definition raster_point ::
  "collaborators \<Rightarrow> LEOScanProjectorSettings \<Rightarrow> nat \<Rightarrow> real \<Rightarrow> int \<times> int" where
  "raster_point ext s scan t =
     toSatCoords ext
       (TPERS_init (altitude (line_orbit ext s scan) * 1000)
          (longitude (line_orbit ext s scan) * 57.29578)
          (latitude (line_orbit ext s scan) * 57.29578) 0 (Finite 0))
       (latitude (fst (propagate ext t [])) * 57.29578)
       (longitude (fst (propagate ext t [])) * 57.29578) 200 200"

subsection \<open>The constructor and the query\<close>

text \<open>The object before the body of the constructor runs: the settings, and empty members.\<close>

definition fresh :: "LEOScanProjectorSettings \<Rightarrow> LEOScanProjector" where
  "fresh s =
     \<lparr>settings = s, curvature_correction_factors_fwd = [],
      curvature_correction_factors_inv = [], corrected_width = 0,
      poss = [], projs = [], sat_footprints = [], oracle_log = []\<rparr>"

definition LEOScanProjector_new ::
  "collaborators \<Rightarrow> LEOScanProjectorSettings \<Rightarrow> fault + LEOScanProjector" where
  "LEOScanProjector_new ext s =
     (case initCurvatureTable (fresh s) of
        Inl e \<Rightarrow> Inl e
      | Inr P \<Rightarrow> Inr (generateProjections ext P))"

text \<open>
  The object that \<open>initCurvatureTable\<close> leaves when every store falls inside the reserved
  storage, in closed form.
\<close>

definition curvature_tables :: "LEOScanProjectorSettings \<Rightarrow> LEOScanProjector" where
  "curvature_tables s =
     (let cw = c_round (correction_swath s / correction_res s) in
      (fresh s)\<lparr>corrected_width := cw,
                curvature_correction_factors_fwd :=
                  map (\<lambda>i. curvature_pixel s cw (int i)) [0..<nat cw],
                curvature_correction_factors_inv :=
                  written_cells s cw [0..<nat cw] (replicate (nat (image_width s)) None)\<rparr>)"

text \<open>The settings with which the constructor runs to its end.\<close>

definition constructible :: "LEOScanProjectorSettings \<Rightarrow> bool" where
  "constructible s \<longleftrightarrow>
     correction_res s \<noteq> 0 \<and>
     fits_int (c_round (correction_swath s / correction_res s)) \<and>
     0 \<le> image_width s \<and>
     list_all (in_storage s (c_round (correction_swath s / correction_res s)) (nat (image_width s)))
       [0..<nat (c_round (correction_swath s / correction_res s))]"

text \<open>
  The outcomes of \<open>inverse\<close>: the early \<open>return 1\<close>; a read of \<open>projs\<close>, \<open>sat_footprints\<close> or
  the reserved storage outside the vector; a read of a reserved cell that was never
  written; or the final \<open>return pj.inverse(pjx, 0, lon, lat)\<close>, given by the projection
  object and the two coordinates handed to it.
\<close>

datatype inverse_outcome =
    OutOfRange
  | OutOfBoundsRead
  | UninitialisedRead
  | Forwarded TPERSProjection real real

text \<open>Lines 130 to 142: from the pixel and the width in use to the call of the primitive.\<close>

definition scale_to_projection ::
  "LEOScanProjectorSettings \<Rightarrow> TPERSProjection \<Rightarrow> real \<Rightarrow> real \<Rightarrow> real \<Rightarrow> inverse_outcome" where
  "scale_to_projection s pj footprint' corr_x width =
     (let proj_x = (if invert_scan s then (width - 1) - corr_x else corr_x);
          proj_x = proj_x - width / 2;
          proj_x = proj_x + proj_offset s;
          pjx = proj_x / (proj_scale s * (width / 2));
          pjx = pjx * (instrument_swath s / footprint')
      in Forwarded pj pjx 0)"

definition inverse_geo :: "LEOScanProjector \<Rightarrow> int \<Rightarrow> int \<Rightarrow> bool \<Rightarrow> inverse_outcome" where
  "inverse_geo P img_x img_y correct =
     (if img_y > int (length (projs P)) \<or> img_x \<ge> image_width (settings P) then OutOfRange
      else if img_y < 0 \<or> img_y \<ge> int (length (projs P))
              \<or> img_y \<ge> int (length (sat_footprints P)) then OutOfBoundsRead
      else
        let pj = projs P ! nat img_y;
            footprint' = sat_footprints P ! nat img_y
        in if correct then
             (if img_x < 0 \<or> img_x \<ge> int (length (curvature_correction_factors_inv P))
              then OutOfBoundsRead
              else (case curvature_correction_factors_inv P ! nat img_x of
                      None \<Rightarrow> UninitialisedRead
                    | Some v \<Rightarrow> scale_to_projection (settings P) pj footprint'
                                 (real_of_int v) (real_of_int (corrected_width P))))
           else scale_to_projection (settings P) pj footprint'
                  (real_of_int img_x) (real_of_int (image_width (settings P))))"

subsection \<open>Concrete inputs\<close>

text \<open>
  The settings that the MWTS-2 module hands to the projector, with the timestamps as a
  parameter, and two sets of collaborators: a satellite that moves east along the equator
  by 13/12800 of a degree per second and is at one degree east at time 1000, and one that
  does not move. Both use the difference in degrees to the centre of the projection as
  plane coordinates. The lines of the examples are at time 1000 (and 1001 for the satellite
  that does not move): the degrees that reach the narrowing conversion there (0,
  0.796875 and 1.203125) and the raster coordinates are values of \<open>float\<close>, on which the
  rounding is the identity, and the products with 4 and 100 (81.25 in size) are far from
  the next integer, so the raster points are those of the source in its own arithmetic.
  No conversion leaves the range of \<open>int\<close>; the value given for that case is the one of x86.
\<close>

definition moving_ext :: collaborators where
  "moving_ext =
     \<lparr>predict_to_julian_double = (\<lambda>t. t / 86400),
      predict_orbit = (\<lambda>jd. \<lparr>latitude = 0,
                               longitude = (1 + (jd * 86400 - 1000) * 13 / 12800) / 57.29578,
                               altitude = 827, footprint = 3000\<rparr>),
      tpers_forward = (\<lambda>pj lon lat. (lon - pj_lon pj, lat - pj_lat pj)),
      float_of_double = (\<lambda>x. x),
      int_out_of_range = (\<lambda>x. - (2 ^ 31))\<rparr>"

definition still_ext :: collaborators where
  "still_ext =
     \<lparr>predict_to_julian_double = (\<lambda>t. t / 86400),
      predict_orbit = (\<lambda>jd. \<lparr>latitude = 0, longitude = 0, altitude = 827, footprint = 3000\<rparr>),
      tpers_forward = (\<lambda>pj lon lat. (lon - pj_lon pj, lat - pj_lat pj)),
      float_of_double = (\<lambda>x. x),
      int_out_of_range = (\<lambda>x. - (2 ^ 31))\<rparr>"

definition mwts_settings :: "real list \<Rightarrow> LEOScanProjectorSettings" where
  "mwts_settings ts =
     \<lparr>proj_offset = 60, correction_swath = 1400, correction_res = 17.4 / 20,
      correction_height = 827, instrument_swath = 2200, proj_scale = 2.42, az_offset = 0,
      tilt_offset = 0, time_offset = 0, image_width = 90, invert_scan = True,
      utc_timestamps = ts\<rparr>"

text \<open>
  The same settings with a raw width of 2 pixels and a resolution of 175 km, which gives a
  corrected width of 8; and settings whose swath spans a third of a turn at the centre of
  the earth, far beyond the horizon of a satellite 827 km up, sampled 4 times.
\<close>

definition coarse_settings :: "real list \<Rightarrow> LEOScanProjectorSettings" where
  "coarse_settings ts = (mwts_settings ts)\<lparr>correction_res := 175, image_width := 2\<rparr>"

definition wide_settings :: LEOScanProjectorSettings where
  "wide_settings =
     (mwts_settings [])\<lparr>correction_swath := 6371 * (2 * pi / 3),
                         correction_res := 6371 * (2 * pi / 3) / 4\<rparr>"

text \<open>The projectors that the constructor builds for one scan line at time 1000.\<close>

definition mwts_projector :: LEOScanProjector where
  "mwts_projector = generateProjections moving_ext (curvature_tables (mwts_settings [1000]))"

definition coarse_projector :: LEOScanProjector where
  "coarse_projector = generateProjections moving_ext (curvature_tables (coarse_settings [1000]))"

subsection \<open>The projection coordinate in the words of the specification\<close>

text \<open>
  The pixel is mirrored across the line when the scan is inverted, recentred by subtracting
  half the reference width, shifted by the pixel offset, divided by the projection scale
  times the half width, and multiplied by the instrument swath over the footprint of the
  line.
\<close>

definition spec_coordinate ::
  "LEOScanProjectorSettings \<Rightarrow> real \<Rightarrow> real \<Rightarrow> real \<Rightarrow> real" where
  "spec_coordinate s width pixel line_footprint =
     ((if invert_scan s then (width - 1) - pixel else pixel) - width / 2 + proj_offset s)
       / (proj_scale s * (width / 2))
       * (instrument_swath s / line_footprint)"

section \<open>Properties of the MWTS-3 reader\<close>

lemma length_resize: "length (resize xs n) = n"
  by (simp add: resize_def)

lemma resize_same: "length xs = n \<Longrightarrow> resize xs n = xs"
  by (simp add: resize_def)

lemma reader_inv_new: "reader_inv MWTS3Reader_new"
  by (simp add: reader_inv_def MWTS3Reader_new_def length_resize list_all_iff)


lemma for_each_inv:
  assumes "I s"
    and "\<And>i s. i \<in> set xs \<Longrightarrow> I s \<Longrightarrow> \<exists>s'. body i s = Some s' \<and> I s'"
  shows "\<exists>s'. for_each body xs s = Some s' \<and> I s'"
  using assms
proof (induction xs arbitrary: s)
  case Nil
  then show ?case by simp
next
  case (Cons x xs)
  from Cons.prems obtain s1 where s1: "body x s = Some s1" "I s1"
    by (meson list.set_intros(1))
  from Cons.IH [OF s1(2)] Cons.prems(2) obtain s' where "for_each body xs s1 = Some s'" "I s'"
    by (meson list.set_intros(2))
  with s1 show ?case by simp
qed


lemma store16_shape:
  assumes "shape L chs" "c < 18" "k < L"
  shows "\<exists>chs'. store16 chs c k v = Some chs' \<and> shape L chs'"
  using assms
  by (auto simp: store16_def shape_def list_all_length nth_list_update)

lemma sample16_Some:
  assumes "a + 1 < length p"
  shows "\<exists>v. sample16 p a = Some v"
  using assms by (simp add: sample16_def payload_at_def)

lemma copy_samples_shape:
  assumes "shape L chs" "base + n \<le> L" "pos + 36 * n \<le> length p"
  shows "\<exists>chs'. copy_samples p pos base n chs = Some chs' \<and> shape L chs'"
  unfolding copy_samples_def
proof (rule for_each_inv [where I = "shape L"])
  show "shape L chs" by fact
next
  fix i s
  assume i: "i \<in> set [0..<n]" and s: "shape L s"
  show "\<exists>s'. for_each (\<lambda>c chs'. case sample16 p (pos + (18 * i + c) * 2) of None \<Rightarrow> None
                 | Some v \<Rightarrow> store16 chs' c (base + i) v) [0..<18] s = Some s' \<and> shape L s'"
  proof (rule for_each_inv [where I = "shape L"])
    show "shape L s" by fact
  next
    fix c t
    assume c: "c \<in> set [0..<18]" and t: "shape L t"
    from i c assms(3) have "pos + (18 * i + c) * 2 + 1 < length p" by auto
    then obtain v where v: "sample16 p (pos + (18 * i + c) * 2) = Some v"
      using sample16_Some by blast
    from i assms(2) have "base + i < L" by auto
    with store16_shape [OF t, of c "base + i" v] c v
    show "\<exists>s'. (case sample16 p (pos + (18 * i + c) * 2) of None \<Rightarrow> None
                 | Some v \<Rightarrow> store16 t c (base + i) v) = Some s' \<and> shape L s'"
      by simp
  qed
qed


lemma reader_inv_shape: "reader_inv r \<longleftrightarrow> shape ((lines r + 1) * 98) (channels r) \<and> lines r = length (timestamps r)"
  by (auto simp: reader_inv_def shape_def)

lemma resize_shape_same:
  "shape L chs \<Longrightarrow> map (\<lambda>ch. resize ch L) chs = chs"
  by (auto simp: shape_def list_all_iff resize_same intro: map_idI)

lemma resize_shape: "length chs = 18 \<Longrightarrow> shape L (map (\<lambda>ch. resize ch L) chs)"
  by (simp add: shape_def list_all_iff length_resize)

lemma work_short: "length p < 1018 \<Longrightarrow> work parseTime r p = Some r"
  by (simp add: work_def)

lemma work_line_start:
  assumes "reader_inv r" "1018 \<le> length p" "marker_of (p ! 0) = 1"
  shows "\<exists>r'. work parseTime r p = Some r' \<and> reader_inv r' \<and> lines r' = lines r + 1
           \<and> timestamps r' = timestamps r @ [parseTime (drop 2 p) + 12 * 3600]"
proof -
  from assms(1) have sh: "shape ((lines r + 1) * 98) (channels r)"
    unfolding reader_inv_shape by (rule conjunct1)
  from copy_samples_shape [OF sh, of "lines r * 98" 14 "224 + 144 * 2" p] assms(2)
  obtain chs where chs: "copy_samples p (224 + 144 * 2) (lines r * 98) 14 (channels r) = Some chs"
    "shape ((lines r + 1) * 98) chs" by auto
  from chs(2) have len: "length chs = 18" by (simp add: shape_def)
  show ?thesis
    using assms chs(1) resize_shape [OF len, of "(lines r + 1 + 1) * 98"]
    by (auto simp: work_def payload_at_def reader_inv_shape)
qed

lemma work_other:
  assumes "reader_inv r" "1018 \<le> length p" "marker_of (p ! 0) \<noteq> 1"
  shows "\<exists>r'. work parseTime r p = Some r' \<and> reader_inv r' \<and> lines r' = lines r
           \<and> timestamps r' = timestamps r"
proof -
  from assms(1) have sh: "shape ((lines r + 1) * 98) (channels r)"
    unfolding reader_inv_shape by (rule conjunct1)
  have blk: "\<exists>chs. copy_samples p 8 (lines r * 98 + off) 28 (channels r) = Some chs
              \<and> shape ((lines r + 1) * 98) chs" if "off + 28 \<le> 98" for off
    using copy_samples_shape [OF sh, of "lines r * 98 + off" 28 8 p] assms(2) that by auto
  consider (m2) "marker_of (p ! 0) = 2" | (m3) "marker_of (p ! 0) = 3" | (m4) "marker_of (p ! 0) = 4"
    | (other) "marker_of (p ! 0) \<notin> {1, 2, 3, 4}"
    using assms(3) by auto
  then show ?thesis
  proof cases
    case m2
    from blk [of 14] obtain chs where "copy_samples p 8 (lines r * 98 + 14) 28 (channels r) = Some chs"
      "shape ((lines r + 1) * 98) chs" by auto
    then show ?thesis using assms m2
      by (auto simp: work_def payload_at_def reader_inv_shape resize_shape_same)
  next
    case m3
    from blk [of 42] obtain chs where "copy_samples p 8 (lines r * 98 + 42) 28 (channels r) = Some chs"
      "shape ((lines r + 1) * 98) chs" by auto
    then show ?thesis using assms m3
      by (auto simp: work_def payload_at_def reader_inv_shape resize_shape_same)
  next
    case m4
    from blk [of 70] obtain chs where "copy_samples p 8 (lines r * 98 + 70) 28 (channels r) = Some chs"
      "shape ((lines r + 1) * 98) chs" by auto
    then show ?thesis using assms m4
      by (auto simp: work_def payload_at_def reader_inv_shape resize_shape_same)
  next
    case other
    then show ?thesis using assms sh
      by (auto simp: work_def payload_at_def reader_inv_shape resize_shape_same)
  qed
qed

text \<open>
  Claim C10. The constructor establishes the invariant of the reader (each of the 18 channel
  buffers holds \<open>(lines + 1) * 98\<close> samples, and \<open>lines\<close> is the number of stored timestamps).
  From a state that satisfies it, \<open>work\<close> returns without any access outside a vector, in a
  state that satisfies it again; it adds one to \<open>lines\<close> and appends exactly one timestamp when
  the payload has at least 1018 bytes and the marker is 1, and leaves both as they were
  otherwise; a payload shorter than 1018 bytes leaves the whole state unchanged.
\<close>

theorem reader_invariant:
  "reader_inv MWTS3Reader_new \<and>
   (reader_inv r \<longrightarrow>
     (\<exists>r'. work parseTime r p = Some r' \<and> reader_inv r' \<and>
        (if 1018 \<le> length p \<and> marker_of (p ! 0) = 1
         then lines r' = lines r + 1 \<and>
              timestamps r' = timestamps r @ [parseTime (drop 2 p) + 12 * 3600]
         else lines r' = lines r \<and> timestamps r' = timestamps r) \<and>
        (length p < 1018 \<longrightarrow> r' = r)))"
proof (intro conjI impI)
  show "reader_inv MWTS3Reader_new" by (rule reader_inv_new)
next
  assume inv: "reader_inv r"
  show "\<exists>r'. work parseTime r p = Some r' \<and> reader_inv r' \<and>
        (if 1018 \<le> length p \<and> marker_of (p ! 0) = 1
         then lines r' = lines r + 1 \<and>
              timestamps r' = timestamps r @ [parseTime (drop 2 p) + 12 * 3600]
         else lines r' = lines r \<and> timestamps r' = timestamps r) \<and>
        (length p < 1018 \<longrightarrow> r' = r)"
  proof (cases "length p < 1018")
    case True
    then show ?thesis using inv by (simp add: work_short)
  next
    case long: False
    show ?thesis
    proof (cases "marker_of (p ! 0) = 1")
      case True
      with work_line_start [OF inv, of p parseTime] long show ?thesis by auto
    next
      case False
      with work_other [OF inv, of p parseTime] long show ?thesis by auto
    qed
  qed
qed

theorem reader_invariant_witness:
  "reader_inv MWTS3Reader_new \<and>
   (\<exists>r'. work (\<lambda>bs. 0) MWTS3Reader_new (replicate 1018 16) = Some r' \<and> reader_inv r' \<and>
      lines r' = 1 \<and> timestamps r' = [43200])"
  using reader_invariant [of MWTS3Reader_new "\<lambda>bs. 0" "replicate 1018 16"]
  by (simp add: marker_of_def MWTS3Reader_new_def)

section \<open>Properties of generateProjections\<close>

text \<open>The record of the calls only grows, and the results do not depend on it.\<close>

lemma propagate_calls: "snd (propagate ext t calls) = calls @ [t]"
  by (simp add: propagate_def)

lemma propagate_position: "fst (propagate ext t calls) = fst (propagate ext t [])"
  by (simp add: propagate_def)

lemma motion_points_calls:
  "snd (motion_points ext orbit t calls) = calls @ [t - 200, t + 200]"
  by (simp add: motion_points_def propagate_def Let_def)

lemma motion_points_points:
  "fst (motion_points ext orbit t calls) = fst (motion_points ext orbit t [])"
  by (simp add: motion_points_def propagate_def Let_def)

lemma motion_azimuth_calls:
  "snd (motion_azimuth ext orbit t calls) = calls @ [t - 200, t + 200]"
  by (simp add: motion_azimuth_def split_beta motion_points_calls)

lemma motion_azimuth_value:
  "fst (motion_azimuth ext orbit t calls) = fst (motion_azimuth ext orbit t [])"
  by (simp add: motion_azimuth_def split_beta motion_points_points [of ext orbit t calls])

lemma scan_body_eq:
  "scan_body ext scan P =
     P\<lparr>poss := poss P @ [line_orbit ext (settings P) scan],
       projs := projs P @ [line_projection ext (settings P) scan],
       sat_footprints := sat_footprints P @ [footprint (line_orbit ext (settings P) scan)],
       oracle_log := oracle_log P @ line_queries (settings P) scan\<rparr>"
proof -
  let ?t = "line_timestamp (settings P) scan"
  let ?o = "fst (propagate ext ?t (oracle_log P))"
  let ?c = "snd (propagate ext ?t (oracle_log P))"
  have o: "?o = line_orbit ext (settings P) scan"
    unfolding line_orbit_def by (rule propagate_position)
  have az: "fst (motion_azimuth ext ?o ?t ?c) = line_azimuth ext (settings P) scan"
    unfolding o line_azimuth_def by (rule motion_azimuth_value)
  have calls: "snd (motion_azimuth ext ?o ?t ?c) = oracle_log P @ line_queries (settings P) scan"
    by (simp add: motion_azimuth_calls propagate_calls line_queries_def)
  have "scan_body ext scan P =
     P\<lparr>poss := poss P @ [?o],
       projs := projs P @ [TPERS_init (altitude ?o * 1000) (longitude ?o * 57.29578)
                            (latitude ?o * 57.29578) (tilt_offset (settings P))
                            (offset_azimuth (settings P) (fst (motion_azimuth ext ?o ?t ?c)))],
       sat_footprints := sat_footprints P @ [footprint ?o],
       oracle_log := snd (motion_azimuth ext ?o ?t ?c)\<rparr>"
    by (simp add: scan_body_def Let_def split_beta line_timestamp_def)
  then show ?thesis
    unfolding az calls unfolding o by (simp add: line_projection_def)
qed

lemma fold_scan_body:
  "fold (scan_body ext) xs P =
     P\<lparr>poss := poss P @ map (line_orbit ext (settings P)) xs,
       projs := projs P @ map (line_projection ext (settings P)) xs,
       sat_footprints := sat_footprints P @ map (\<lambda>scan. footprint (line_orbit ext (settings P) scan)) xs,
       oracle_log := oracle_log P @ concat (map (line_queries (settings P)) xs)\<rparr>"
proof (induction xs arbitrary: P)
  case Nil
  show ?case by simp
next
  case (Cons x xs)
  have "fold (scan_body ext) (x # xs) P = fold (scan_body ext) xs (scan_body ext x P)"
    by simp
  also have "\<dots> = (scan_body ext x P)
     \<lparr>poss := poss (scan_body ext x P) @ map (line_orbit ext (settings (scan_body ext x P))) xs,
       projs := projs (scan_body ext x P) @ map (line_projection ext (settings (scan_body ext x P))) xs,
       sat_footprints := sat_footprints (scan_body ext x P)
          @ map (\<lambda>scan. footprint (line_orbit ext (settings (scan_body ext x P)) scan)) xs,
       oracle_log := oracle_log (scan_body ext x P)
          @ concat (map (line_queries (settings (scan_body ext x P))) xs)\<rparr>"
    by (rule Cons.IH)
  also have "\<dots> = P\<lparr>poss := poss P @ map (line_orbit ext (settings P)) (x # xs),
       projs := projs P @ map (line_projection ext (settings P)) (x # xs),
       sat_footprints := sat_footprints P
          @ map (\<lambda>scan. footprint (line_orbit ext (settings P) scan)) (x # xs),
       oracle_log := oracle_log P @ concat (map (line_queries (settings P)) (x # xs))\<rparr>"
    by (simp add: scan_body_eq)
  finally show ?case .
qed

lemma generateProjections_eq:
  "generateProjections ext P =
     P\<lparr>poss := poss P @ map (line_orbit ext (settings P)) [0..<length (utc_timestamps (settings P))],
       projs := projs P @ map (line_projection ext (settings P)) [0..<length (utc_timestamps (settings P))],
       sat_footprints := sat_footprints P
          @ map (\<lambda>scan. footprint (line_orbit ext (settings P) scan)) [0..<length (utc_timestamps (settings P))],
       oracle_log := oracle_log P
          @ concat (map (line_queries (settings P)) [0..<length (utc_timestamps (settings P))])\<rparr>"
  by (simp add: generateProjections_def fold_scan_body)

lemma map_index_nth: "map (\<lambda>i. f (xs ! i)) [0..<length xs] = map f xs"
proof -
  have "map f (map ((!) xs) [0..<length xs]) = map f xs"
    by (simp only: map_nth)
  then show ?thesis
    by (simp only: map_map comp_def)
qed

lemma line_azimuth_eq:
  "line_azimuth ext s scan =
     vector_azimuth ext (raster_point ext s scan (line_timestamp s scan - 200))
       (raster_point ext s scan (line_timestamp s scan + 200))"
  by (simp add: line_azimuth_def motion_azimuth_def motion_points_def raster_point_def
      propagate_def Let_def)

text \<open>
  Claim C2, as the code has it. For every scan line with timestamp \<open>t\<close> (the offset applied),
  the propagator is called at \<open>t\<close>, at \<open>t - 200\<close> and at \<open>t + 200\<close>, in this order and at no
  other time, and the azimuth of the line is the angle of the vector between the raster
  points of the two positions that it gives for \<open>t - 200\<close> and \<open>t + 200\<close>. The 200 is in the
  unit of the timestamps, which is the second, so the two samples are 200 seconds before
  and after the line, not 200 milliseconds.
\<close>

theorem oracle_times:
  "oracle_log (generateProjections ext P) =
     oracle_log P @ concat (map (\<lambda>ts. [ts + time_offset (settings P),
                                        ts + time_offset (settings P) - 200,
                                        ts + time_offset (settings P) + 200])
                              (utc_timestamps (settings P))) \<and>
   (\<forall>scan < length (utc_timestamps (settings P)).
      line_azimuth ext (settings P) scan =
        vector_azimuth ext
          (raster_point ext (settings P) scan
             (utc_timestamps (settings P) ! scan + time_offset (settings P) - 200))
          (raster_point ext (settings P) scan
             (utc_timestamps (settings P) ! scan + time_offset (settings P) + 200)))"
proof
  have "map (line_queries (settings P)) [0..<length (utc_timestamps (settings P))]
      = map (\<lambda>i. (\<lambda>ts. [ts + time_offset (settings P), ts + time_offset (settings P) - 200,
                         ts + time_offset (settings P) + 200]) (utc_timestamps (settings P) ! i))
          [0..<length (utc_timestamps (settings P))]"
    by (simp add: line_queries_def line_timestamp_def)
  also have "\<dots> = map (\<lambda>ts. [ts + time_offset (settings P), ts + time_offset (settings P) - 200,
                         ts + time_offset (settings P) + 200]) (utc_timestamps (settings P))"
    by (rule map_index_nth)
  finally show "oracle_log (generateProjections ext P) =
     oracle_log P @ concat (map (\<lambda>ts. [ts + time_offset (settings P),
                                        ts + time_offset (settings P) - 200,
                                        ts + time_offset (settings P) + 200])
                              (utc_timestamps (settings P)))"
    by (simp add: generateProjections_eq)
  show "\<forall>scan < length (utc_timestamps (settings P)).
      line_azimuth ext (settings P) scan =
        vector_azimuth ext
          (raster_point ext (settings P) scan
             (utc_timestamps (settings P) ! scan + time_offset (settings P) - 200))
          (raster_point ext (settings P) scan
             (utc_timestamps (settings P) ! scan + time_offset (settings P) + 200))"
    using line_azimuth_eq [of ext "settings P"] by (simp add: line_timestamp_def)
qed

theorem oracle_times_witness:
  "oracle_log (generateProjections moving_ext (fresh (mwts_settings [1000]))) = [1000, 800, 1200] \<and>
   line_azimuth moving_ext (mwts_settings [1000]) 0 =
     vector_azimuth moving_ext (raster_point moving_ext (mwts_settings [1000]) 0 800)
       (raster_point moving_ext (mwts_settings [1000]) 0 1200)"
  using oracle_times [of moving_ext "fresh (mwts_settings [1000])"]
  by (simp add: fresh_def mwts_settings_def)

text \<open>
  Claim C2 as stated fails: for one line at \<open>t = 1000\<close> seconds the calls are at 1000, 800
  and 1200, not at \<open>t\<close>, \<open>t - 0.2\<close> and \<open>t + 0.2\<close>.
\<close>

theorem not_millisecond_window:
  "oracle_log (generateProjections moving_ext (fresh (mwts_settings [1000]))) = [1000, 800, 1200] \<and>
   oracle_log (generateProjections moving_ext (fresh (mwts_settings [1000])))
     \<noteq> [1000, 1000 - 200 / 1000, 1000 + 200 / 1000]"
  by (simp add: generateProjections_eq fresh_def mwts_settings_def line_queries_def line_timestamp_def)

lemma projs_generate:
  assumes "scan < length (utc_timestamps (settings P))"
  shows "projs (generateProjections ext P) ! (length (projs P) + scan)
           = line_projection ext (settings P) scan"
  using assms by (simp add: generateProjections_eq)

text \<open>
  Claim C8. For every scan line, the azimuth with which the projection of the line is
  initialised is the raw azimuth of the motion vector minus 90, with the fixed azimuth
  offset subtracted when the raw azimuth is strictly positive and added otherwise (a raw
  azimuth that is NaN stays NaN).
\<close>

theorem azimuth_used:
  assumes "scan < length (utc_timestamps (settings P))"
  shows "pj_az (projs (generateProjections ext P) ! (length (projs P) + scan)) =
           (case line_azimuth ext (settings P) scan of
              NaN \<Rightarrow> NaN
            | Finite a \<Rightarrow> Finite (if a > 0 then a - 90 - az_offset (settings P)
                                  else a - 90 + az_offset (settings P)))"
  by (simp add: projs_generate [OF assms] line_projection_def TPERS_init_def offset_azimuth_def
      Let_def split: fval.split)

lemma line_azimuth_points:
  "line_azimuth ext s scan =
     vector_azimuth ext (fst (line_points ext s scan)) (snd (line_points ext s scan))"
  by (simp add: line_azimuth_def line_points_def motion_azimuth_def split_beta)

lemma moving_points:
  "line_points moving_ext (mwts_settings [1000]) 0 = ((19, 99), (181, 99))"
  by (simp add: line_points_def motion_points_def propagate_def line_orbit_def line_timestamp_def
      moving_ext_def mwts_settings_def toSatCoords_def TPERS_init_def double_to_int_def
      int32_def fits_int_def c_trunc_def Let_def)

lemma moving_azimuth: "line_azimuth moving_ext (mwts_settings [1000]) 0 = Finite 0"
proof -
  have "float_of_double moving_ext = (\<lambda>x. x)" by (simp add: moving_ext_def)
  then show ?thesis
    by (simp add: line_azimuth_points moving_points vector_azimuth_def)
qed

theorem azimuth_used_witness:
  "pj_az (projs (generateProjections moving_ext (fresh (mwts_settings [1000]))) ! 0) = Finite (- 90)"
  using azimuth_used [of 0 "fresh (mwts_settings [1000])" moving_ext] moving_azimuth
  by (simp add: fresh_def mwts_settings_def)

text \<open>
  Claim C4, as the code has it. For a scan line whose two samples fall on the same point of
  the raster, the division is carried out with a zero divisor and a zero dividend; nothing
  is raised, the result is NaN, and NaN is the azimuth handed to the projection of the line.
\<close>

theorem stationary_azimuth_nan:
  assumes "scan < length (utc_timestamps (settings P))"
    and "fst (line_points ext (settings P) scan) = snd (line_points ext (settings P) scan)"
  shows "pj_az (projs (generateProjections ext P) ! (length (projs P) + scan)) = NaN"
proof -
  from assms(2) have "line_azimuth ext (settings P) scan = NaN"
    by (simp add: line_azimuth_points vector_azimuth_def)
  then show ?thesis
    by (simp add: projs_generate [OF assms(1)] line_projection_def TPERS_init_def offset_azimuth_def)
qed

lemma still_points:
  "line_points still_ext (mwts_settings ts) scan = ((100, 99), (100, 99))"
  by (simp add: line_points_def motion_points_def propagate_def line_orbit_def line_timestamp_def
      still_ext_def mwts_settings_def toSatCoords_def TPERS_init_def double_to_int_def
      int32_def fits_int_def c_trunc_def Let_def)

theorem stationary_azimuth_nan_witness:
  "pj_az (projs (generateProjections still_ext (fresh (mwts_settings [1000, 1001]))) ! 1) = NaN"
  using stationary_azimuth_nan [of 1 "fresh (mwts_settings [1000, 1001])" still_ext] still_points
  by (simp add: fresh_def mwts_settings_def)

text \<open>
  Claim C4 as stated fails: for the satellite that does not move, the azimuth of the line is
  the NaN that the division of zero by zero gives, not a fallback value.
\<close>

theorem stationary_azimuth_undefined:
  "pj_az (projs (generateProjections still_ext (fresh (mwts_settings [1000]))) ! 0) = NaN"
proof -
  have "line_azimuth still_ext (mwts_settings [1000]) 0 = NaN"
    by (simp add: line_azimuth_points still_points vector_azimuth_def)
  then show ?thesis
    by (simp add: generateProjections_eq fresh_def line_projection_def TPERS_init_def
        offset_azimuth_def mwts_settings_def)
qed

section \<open>Properties of initCurvatureTable\<close>

lemma edge_angle_eq: "edge_angle s = satellite_angle_at s (satellite_view_angle s / 2)"
  by (simp add: edge_angle_def satellite_angle_at_def)

lemma curvature_pixel_eq:
  "curvature_pixel s cw i =
     real_of_int (image_width s)
       * ((satellite_angle_at s (sample_angle s cw i) / edge_angle s + 1) / 2)"
  by (simp add: curvature_pixel_def satellite_angle_at_def sample_angle_def Let_def)

lemma satellite_angle_at_zero: "satellite_angle_at s 0 = 0"
  by (simp add: satellite_angle_at_def)

lemma satellite_angle_at_minus: "satellite_angle_at s (- x) = - satellite_angle_at s x"
  by (simp add: satellite_angle_at_def arctan_minus)

text \<open>The chord ratio grows with the angle as long as the line of sight stays short of the
  tangent point.\<close>

lemma chord_ratio_mono:
  fixes R D A a b :: real
  assumes R: "0 < R" and A: "0 < A" "A < pi / 2" and hor: "R \<le> D * cos A"
    and ab: "- A \<le> a" "a < b" "b \<le> A"
  shows "0 < D - R * cos a" "0 < D - R * cos b"
    "R * sin a / (D - R * cos a) < R * sin b / (D - R * cos b)"
proof -
  have cosA: "0 < cos A" "cos A < 1"
    using A cos_gt_zero [of A] cos_monotone_0_pi [of 0 A] by simp_all
  have Dpos: "0 < D"
  proof (rule ccontr)
    assume "\<not> 0 < D"
    then have "D * cos A \<le> 0" using cosA(1) by (simp add: mult_nonpos_nonneg)
    with hor R show False by simp
  qed
  have DR: "R < D"
  proof -
    have "D * cos A < D * 1" using Dpos cosA(2) by (intro mult_strict_left_mono)
    with hor show ?thesis by simp
  qed
  have cos_le: "R * cos x \<le> R" for x
    using R cos_le_one [of x] by simp
  show da: "0 < D - R * cos a" using cos_le [of a] DR by simp
  show db: "0 < D - R * cos b" using cos_le [of b] DR by simp
  define h where "h = (b - a) / 2"
  define m where "m = (b + a) / 2"
  have h: "0 < h" "h < pi" using ab A by (simp_all add: h_def)
  have m: "\<bar>m\<bar> < A" using ab by (simp add: m_def abs_less_iff)
  have sinh: "0 < sin h" using h by (rule sin_gt_zero)
  have "cos A < cos \<bar>m\<bar>"
    using m A by (intro cos_monotone_0_pi) simp_all
  then have "cos A < cos m" by simp
  then have "D * cos A < D * cos m" using Dpos by (intro mult_strict_left_mono)
  with hor have "R < D * cos m" by simp
  moreover have "R * cos h \<le> R" by (rule cos_le)
  ultimately have br: "0 < D * cos m - R * cos h" by simp
  have s1: "sin b - sin a = 2 * sin h * cos m"
    unfolding h_def m_def by (rule sin_diff_sin)
  have "b - a = 2 * h" by (simp add: h_def)
  then have "sin (b - a) = sin (2 * h)" by (simp only:)
  then have s2: "sin b * cos a - cos b * sin a = 2 * sin h * cos h"
    by (simp add: sin_diff sin_double)
  have "sin b * (D - R * cos a) - sin a * (D - R * cos b)
          = D * (sin b - sin a) - R * (sin b * cos a - cos b * sin a)"
    by (simp add: algebra_simps)
  also have "\<dots> = 2 * sin h * (D * cos m - R * cos h)"
    unfolding s1 s2 by (simp add: algebra_simps)
  also have "0 < \<dots>" using sinh br by simp
  finally have cross: "sin a * (D - R * cos b) < sin b * (D - R * cos a)" by simp
  have "sin a / (D - R * cos a) < sin b / (D - R * cos b)"
    using cross da db by (simp add: divide_less_eq less_divide_eq mult.commute)
  then have "R * (sin a / (D - R * cos a)) < R * (sin b / (D - R * cos b))"
    using R by (intro mult_strict_left_mono)
  then show "R * sin a / (D - R * cos a) < R * sin b / (D - R * cos b)" by simp
qed

lemma satellite_angle_at_alt:
  "satellite_angle_at s x =
     arctan (EARTH_RADIUS * sin x / (satellite_orbit_radius s - EARTH_RADIUS * cos x))"
proof -
  have "EARTH_RADIUS * sin x / (cos x * EARTH_RADIUS - satellite_orbit_radius s)
      = - (EARTH_RADIUS * sin x / (satellite_orbit_radius s - EARTH_RADIUS * cos x))"
    by (metis minus_diff_eq minus_divide_right mult.commute)
  then show ?thesis
    by (simp add: satellite_angle_at_def arctan_minus)
qed

lemma half_view_angle:
  assumes "within_horizon s"
  shows "0 < satellite_view_angle s / 2" "satellite_view_angle s / 2 < pi / 2"
  using assms by (simp_all add: within_horizon_def satellite_view_angle_def EARTH_RADIUS_def)

lemma satellite_angle_at_mono:
  assumes "within_horizon s"
    and "- (satellite_view_angle s / 2) \<le> a" "a < b" "b \<le> satellite_view_angle s / 2"
  shows "satellite_angle_at s a < satellite_angle_at s b"
proof -
  have R: "0 < EARTH_RADIUS" by (simp add: EARTH_RADIUS_def)
  from assms(1) have hor: "EARTH_RADIUS \<le> satellite_orbit_radius s * cos (satellite_view_angle s / 2)"
    by (simp add: within_horizon_def)
  from chord_ratio_mono(3) [OF R half_view_angle [OF assms(1)] hor assms(2-4)]
  show ?thesis by (simp add: satellite_angle_at_alt arctan_less_iff)
qed

lemma edge_angle_pos_horizon:
  assumes "within_horizon s"
  shows "0 < edge_angle s"
proof -
  from half_view_angle [OF assms]
  have "satellite_angle_at s 0 < satellite_angle_at s (satellite_view_angle s / 2)"
    by (intro satellite_angle_at_mono [OF assms]) simp_all
  then show ?thesis by (simp add: satellite_angle_at_zero edge_angle_eq)
qed


lemma sample_angle_first:
  "0 < cw \<Longrightarrow> sample_angle s cw 0 = - (satellite_view_angle s / 2)"
  by (simp add: sample_angle_def)

lemma sample_angle_less:
  assumes "0 < satellite_view_angle s" "0 < cw" "i < j"
  shows "sample_angle s cw i < sample_angle s cw j"
proof -
  have "real_of_int i / real_of_int cw < real_of_int j / real_of_int cw"
    using assms(2,3) by (simp add: divide_strict_right_mono)
  then show ?thesis
    using assms(1) by (simp add: sample_angle_def)
qed

lemma sample_angle_range:
  assumes va: "0 < satellite_view_angle s" and "0 < cw" "0 \<le> i" "i < cw"
  shows "- (satellite_view_angle s / 2) \<le> sample_angle s cw i"
    and "sample_angle s cw i < satellite_view_angle s / 2"
proof -
  have "0 \<le> real_of_int i / real_of_int cw" using assms by simp
  then have "- (1 / 2) \<le> real_of_int i / real_of_int cw - 1 / 2" by linarith
  then have "- (1 / 2) * satellite_view_angle s
               \<le> (real_of_int i / real_of_int cw - 1 / 2) * satellite_view_angle s"
    using va by (intro mult_right_mono) simp_all
  then show "- (satellite_view_angle s / 2) \<le> sample_angle s cw i"
    by (simp add: sample_angle_def)
  have "real_of_int i / real_of_int cw < 1" using assms by simp
  then have "real_of_int i / real_of_int cw - 1 / 2 < 1 / 2" by linarith
  then have "(real_of_int i / real_of_int cw - 1 / 2) * satellite_view_angle s
               < (1 / 2) * satellite_view_angle s"
    using va by (rule mult_strict_right_mono)
  then show "sample_angle s cw i < satellite_view_angle s / 2"
    by (simp add: sample_angle_def)
qed

lemma view_angle_pos: "within_horizon s \<Longrightarrow> 0 < satellite_view_angle s"
  using half_view_angle(1) [of s] by simp

lemma angle_ratio_range:
  assumes hor: "within_horizon s" and "0 < cw" "0 \<le> i" "i < cw"
  shows "- 1 \<le> satellite_angle_at s (sample_angle s cw i) / edge_angle s"
    and "satellite_angle_at s (sample_angle s cw i) / edge_angle s < 1"
proof -
  note va = view_angle_pos [OF hor]
  note e = edge_angle_pos_horizon [OF hor]
  note r = sample_angle_range [OF va assms(2-4)]
  have up: "satellite_angle_at s (sample_angle s cw i) < edge_angle s"
    unfolding edge_angle_eq using r by (intro satellite_angle_at_mono [OF hor]) simp_all
  have low: "- edge_angle s \<le> satellite_angle_at s (sample_angle s cw i)"
  proof (cases "sample_angle s cw i = - (satellite_view_angle s / 2)")
    case True
    then show ?thesis by (simp add: satellite_angle_at_minus edge_angle_eq)
  next
    case False
    with r(1) have "- (satellite_view_angle s / 2) < sample_angle s cw i" by simp
    then have "satellite_angle_at s (- (satellite_view_angle s / 2))
                 < satellite_angle_at s (sample_angle s cw i)"
      using r(2) by (intro satellite_angle_at_mono [OF hor]) simp_all
    then show ?thesis by (simp add: satellite_angle_at_minus edge_angle_eq)
  qed
  from low e show "- 1 \<le> satellite_angle_at s (sample_angle s cw i) / edge_angle s"
    by (simp add: le_divide_eq)
  from up e show "satellite_angle_at s (sample_angle s cw i) / edge_angle s < 1"
    by (simp add: divide_less_eq)
qed

lemma half_shift:
  fixes x y :: real
  shows "- 1 \<le> x \<Longrightarrow> 0 \<le> (x + 1) / 2"
    and "x < 1 \<Longrightarrow> (x + 1) / 2 < 1"
    and "x < y \<Longrightarrow> (x + 1) / 2 < (y + 1) / 2"
  by simp_all

lemma curvature_pixel_range:
  assumes hor: "within_horizon s" and "0 < cw" "0 \<le> i" "i < cw" and W: "0 < image_width s"
  shows "0 \<le> curvature_pixel s cw i"
    and "curvature_pixel s cw i < real_of_int (image_width s)"
proof -
  note q = angle_ratio_range [OF hor assms(2-4)]
  from q(1) have "0 \<le> (satellite_angle_at s (sample_angle s cw i) / edge_angle s + 1) / 2"
    by (rule half_shift(1))
  then show "0 \<le> curvature_pixel s cw i"
    unfolding curvature_pixel_eq using W by (intro mult_nonneg_nonneg) simp_all
  from q(2) have "(satellite_angle_at s (sample_angle s cw i) / edge_angle s + 1) / 2 < 1"
    by (rule half_shift(2))
  then have "real_of_int (image_width s)
               * ((satellite_angle_at s (sample_angle s cw i) / edge_angle s + 1) / 2)
             < real_of_int (image_width s) * 1"
    using W by (intro mult_strict_left_mono) simp_all
  then show "curvature_pixel s cw i < real_of_int (image_width s)"
    by (simp add: curvature_pixel_eq)
qed

lemma curvature_pixel_less:
  assumes hor: "within_horizon s" and "0 < cw" "0 \<le> i" "i < j" "j < cw" and W: "0 < image_width s"
  shows "curvature_pixel s cw i < curvature_pixel s cw j"
proof -
  note va = view_angle_pos [OF hor]
  note e = edge_angle_pos_horizon [OF hor]
  have ri: "- (satellite_view_angle s / 2) \<le> sample_angle s cw i"
    using sample_angle_range(1) [OF va assms(2,3)] assms(4,5) by simp
  have rj: "sample_angle s cw j \<le> satellite_view_angle s / 2"
    using sample_angle_range(2) [OF va assms(2), of j] assms(3-5) by simp
  have "satellite_angle_at s (sample_angle s cw i) < satellite_angle_at s (sample_angle s cw j)"
    using ri rj sample_angle_less [OF va assms(2,4)]
    by (intro satellite_angle_at_mono [OF hor])
  then have "satellite_angle_at s (sample_angle s cw i) / edge_angle s
               < satellite_angle_at s (sample_angle s cw j) / edge_angle s"
    using e by (simp add: divide_strict_right_mono)
  then have "(satellite_angle_at s (sample_angle s cw i) / edge_angle s + 1) / 2
               < (satellite_angle_at s (sample_angle s cw j) / edge_angle s + 1) / 2"
    by (rule half_shift(3))
  then show ?thesis
    unfolding curvature_pixel_eq using W by (intro mult_strict_left_mono) simp_all
qed

lemma c_trunc_nonneg: "0 \<le> x \<Longrightarrow> c_trunc x = \<lfloor>x\<rfloor>"
  by (simp add: c_trunc_def)

lemma raw_bin_range:
  assumes "within_horizon s" "0 < cw" "0 \<le> i" "i < cw" "0 < image_width s"
  shows "0 \<le> raw_bin s cw i \<and> raw_bin s cw i < image_width s"
  using curvature_pixel_range [OF assms]
  by (simp add: raw_bin_def c_trunc_nonneg floor_less_iff)

lemma edge_angle_gt_zero:
  assumes "0 < correction_swath s" "correction_swath s < pi * EARTH_RADIUS"
    and "0 < correction_height s"
  shows "0 < edge_angle s"
proof -
  define A where "A = satellite_view_angle s / 2"
  have A: "0 < A" "A < pi / 2"
    using assms(1,2) by (simp_all add: A_def satellite_view_angle_def EARTH_RADIUS_def)
  have "0 < sin A" using A by (intro sin_gt_zero) simp_all
  then have num: "0 < EARTH_RADIUS * sin A" by (simp add: EARTH_RADIUS_def)
  have "cos A * EARTH_RADIUS \<le> 1 * EARTH_RADIUS"
    by (intro mult_right_mono) (simp_all add: EARTH_RADIUS_def)
  then have den: "cos A * EARTH_RADIUS - satellite_orbit_radius s < 0"
    using assms(3) by (simp add: satellite_orbit_radius_def)
  from num den have "EARTH_RADIUS * sin A / (cos A * EARTH_RADIUS - satellite_orbit_radius s) < 0"
    by (rule divide_pos_neg)
  then show ?thesis by (simp add: edge_angle_def A_def)
qed

text \<open>
  Claim C9, as the code has it. For every configuration with a positive correction swath
  strictly less than \<open>pi\<close> times the earth radius and a strictly positive correction
  height, the edge angle computed by the table builder is strictly positive: the quotient
  inside the arctangent is negative (its divisor is), and the source negates the arctangent.
\<close>

theorem edge_angle_positive:
  assumes "0 < correction_swath s" "correction_swath s < pi * EARTH_RADIUS"
    and "0 < correction_height s"
  shows "0 < edge_angle s"
  using assms by (rule edge_angle_gt_zero)

theorem edge_angle_positive_witness: "0 < edge_angle (mwts_settings [])"
  using edge_angle_positive [of "mwts_settings []"] pi_ge_two
  by (simp add: mwts_settings_def EARTH_RADIUS_def)

text \<open>
  Claim C9 as stated fails: for the settings of the MWTS-2 module (swath 1400 km, height
  827 km) the edge angle is not strictly negative.
\<close>

theorem edge_angle_not_negative: "\<not> edge_angle (mwts_settings []) < 0"
proof -
  have "(1400 :: real) < pi * 6371" using pi_ge_two by simp
  then have "0 < edge_angle (mwts_settings [])"
    by (intro edge_angle_gt_zero)
      (simp_all add: mwts_settings_def EARTH_RADIUS_def)
  then show ?thesis by simp
qed


lemma curvature_body_eq:
  "curvature_body i P =
     (if in_storage (settings P) (corrected_width P) (length (curvature_correction_factors_inv P)) i
      then Inr (P\<lparr>curvature_correction_factors_fwd :=
                      curvature_correction_factors_fwd P
                        @ [curvature_pixel (settings P) (corrected_width P) (int i)],
                    curvature_correction_factors_inv :=
                      written_cells (settings P) (corrected_width P) [i]
                        (curvature_correction_factors_inv P)\<rparr>)
      else Inl OutOfBounds)"
  by (simp add: curvature_body_def raw_bin_def in_storage_def written_cells_def Let_def)

lemma length_written_cells [simp]: "length (written_cells s cw xs cells) = length cells"
  unfolding written_cells_def by (induction xs arbitrary: cells) simp_all

lemma written_cells_Cons:
  "written_cells s cw (x # xs) cells = written_cells s cw xs (written_cells s cw [x] cells)"
  by (simp add: written_cells_def)

lemma written_cells_snoc:
  "written_cells s cw (xs @ [x]) cells
     = (written_cells s cw xs cells)[nat (raw_bin s cw (int x)) := Some (int x)]"
  by (simp add: written_cells_def)

lemma curvature_loop:
  "for_loop curvature_body xs P =
     (if \<forall>i\<in>set xs. in_storage (settings P) (corrected_width P)
                        (length (curvature_correction_factors_inv P)) i
      then Inr (P\<lparr>curvature_correction_factors_fwd :=
                      curvature_correction_factors_fwd P
                        @ map (\<lambda>i. curvature_pixel (settings P) (corrected_width P) (int i)) xs,
                    curvature_correction_factors_inv :=
                      written_cells (settings P) (corrected_width P) xs
                        (curvature_correction_factors_inv P)\<rparr>)
      else Inl OutOfBounds)"
proof (induction xs arbitrary: P)
  case Nil
  show ?case by (simp add: written_cells_def)
next
  case (Cons x xs)
  show ?case
  proof (cases "in_storage (settings P) (corrected_width P)
                  (length (curvature_correction_factors_inv P)) x")
    case False
    then show ?thesis by (auto simp: curvature_body_eq)
  next
    case True
    define P1 where "P1 = P\<lparr>curvature_correction_factors_fwd :=
                      curvature_correction_factors_fwd P
                        @ [curvature_pixel (settings P) (corrected_width P) (int x)],
                    curvature_correction_factors_inv :=
                      written_cells (settings P) (corrected_width P) [x]
                        (curvature_correction_factors_inv P)\<rparr>"
    have body: "curvature_body x P = Inr P1"
      using True by (simp add: curvature_body_eq P1_def)
    have same: "settings P1 = settings P" "corrected_width P1 = corrected_width P"
      "length (curvature_correction_factors_inv P1) = length (curvature_correction_factors_inv P)"
      by (simp_all add: P1_def)
    have "for_loop curvature_body (x # xs) P = for_loop curvature_body xs P1"
      by (simp add: body)
    also note Cons.IH [of P1]
    finally show ?thesis
      using True unfolding same
      by (simp add: P1_def written_cells_Cons [of _ _ x xs])
  qed
qed


lemma initCurvatureTable_fresh:
  "initCurvatureTable (fresh s) =
     (if correction_res s = 0 \<or> \<not> fits_int (c_round (correction_swath s / correction_res s))
      then Inl FloatToIntUndefined
      else if image_width s < 0 then Inl LengthError
      else if constructible s then Inr (curvature_tables s)
      else Inl OutOfBounds)"
  by (simp add: initCurvatureTable_def Let_def curvature_loop fresh_def constructible_def
      curvature_tables_def list_all_iff)

lemma new_iff:
  "LEOScanProjector_new ext s = Inr P
     \<longleftrightarrow> constructible s \<and> P = generateProjections ext (curvature_tables s)"
  by (auto simp: LEOScanProjector_new_def initCurvatureTable_fresh constructible_def
      split: sum.splits if_splits)

lemma new_constructible:
  "constructible s \<Longrightarrow>
     LEOScanProjector_new ext s = Inr (generateProjections ext (curvature_tables s))"
  by (simp add: new_iff)

lemma tables_fields:
  "settings (curvature_tables s) = s"
  "corrected_width (curvature_tables s) = c_round (correction_swath s / correction_res s)"
  "projs (curvature_tables s) = []"
  "poss (curvature_tables s) = []"
  "sat_footprints (curvature_tables s) = []"
  "oracle_log (curvature_tables s) = []"
  "length (curvature_correction_factors_fwd (curvature_tables s))
     = nat (c_round (correction_swath s / correction_res s))"
  "length (curvature_correction_factors_inv (curvature_tables s)) = nat (image_width s)"
  by (simp_all add: curvature_tables_def fresh_def Let_def)

lemma tables_fwd_nth:
  "i < nat (c_round (correction_swath s / correction_res s)) \<Longrightarrow>
     curvature_correction_factors_fwd (curvature_tables s) ! i
       = curvature_pixel s (c_round (correction_swath s / correction_res s)) (int i)"
  by (simp add: curvature_tables_def fresh_def Let_def)

lemma generate_keeps:
  "settings (generateProjections ext P) = settings P"
  "corrected_width (generateProjections ext P) = corrected_width P"
  "curvature_correction_factors_fwd (generateProjections ext P) = curvature_correction_factors_fwd P"
  "curvature_correction_factors_inv (generateProjections ext P) = curvature_correction_factors_inv P"
  by (simp_all add: generateProjections_eq)

lemma written_cells_sound:
  assumes "written_cells s cw [0..<n] cells ! k = Some j" "k < length cells"
  shows "cells ! k = Some j \<or> (0 \<le> j \<and> j < int n \<and> nat (raw_bin s cw j) = k)"
  using assms
proof (induction n arbitrary: j)
  case 0
  then show ?case by (simp add: written_cells_def)
next
  case (Suc n)
  show ?case
  proof (cases "nat (raw_bin s cw (int n)) = k")
    case True
    with Suc.prems have "j = int n"
      by (simp add: written_cells_snoc)
    with True show ?thesis by simp
  next
    case False
    with Suc.prems have "written_cells s cw [0..<n] cells ! k = Some j"
      by (simp add: written_cells_snoc)
    from Suc.IH [OF this Suc.prems(2)] show ?thesis by auto
  qed
qed

lemma written_cells_last:
  assumes "i < n" "nat (raw_bin s cw (int i)) < length cells"
  shows "\<exists>j. i \<le> j \<and> j < n \<and> nat (raw_bin s cw (int j)) = nat (raw_bin s cw (int i)) \<and>
           written_cells s cw [0..<n] cells ! nat (raw_bin s cw (int i)) = Some (int j) \<and>
           (\<forall>j'. j < j' \<and> j' < n \<longrightarrow> nat (raw_bin s cw (int j')) \<noteq> nat (raw_bin s cw (int i)))"
  using assms(1)
proof (induction n)
  case 0
  then show ?case by simp
next
  case (Suc n)
  let ?k = "nat (raw_bin s cw (int i))"
  show ?case
  proof (cases "nat (raw_bin s cw (int n)) = ?k")
    case True
    have "written_cells s cw [0..<Suc n] cells ! ?k = Some (int n)"
      using True assms(2) by (simp add: written_cells_snoc)
    with True Suc.prems show ?thesis
      by (intro exI [of _ n]) auto
  next
    case False
    then have "i \<noteq> n" by auto
    with Suc.prems have "i < n" by simp
    from Suc.IH [OF this] obtain j where j: "i \<le> j" "j < n"
      "nat (raw_bin s cw (int j)) = ?k"
      "written_cells s cw [0..<n] cells ! ?k = Some (int j)"
      "\<forall>j'. j < j' \<and> j' < n \<longrightarrow> nat (raw_bin s cw (int j')) \<noteq> ?k"
      by blast
    have "written_cells s cw [0..<Suc n] cells ! ?k = Some (int j)"
      using False j(4) by (simp add: written_cells_snoc)
    moreover have "\<forall>j'. j < j' \<and> j' < Suc n \<longrightarrow> nat (raw_bin s cw (int j')) \<noteq> ?k"
      using j(5) False by (auto simp: less_Suc_eq)
    ultimately show ?thesis
      using j(1-3) by (intro exI [of _ j]) auto
  qed
qed



lemma cos_lower: "1 - x\<^sup>2 / 2 \<le> cos (x::real)"
proof -
  have "\<bar>sin (x / 2)\<bar> \<le> \<bar>x / 2\<bar>" by (rule abs_sin_x_le_abs_x)
  then have "(sin (x / 2))\<^sup>2 \<le> (x / 2)\<^sup>2" by (simp only: abs_le_square_iff)
  moreover have "cos x = 1 - 2 * (sin (x / 2))\<^sup>2"
    using cos_double_sin [of "x / 2"] by simp
  ultimately show ?thesis by (simp add: power_divide)
qed

lemma within_horizon_1400:
  assumes "correction_swath s = 1400" "correction_height s = 827"
  shows "within_horizon s"
proof -
  have "1 - (700 / 6371 :: real)\<^sup>2 / 2 \<le> cos (700 / 6371)" by (rule cos_lower)
  moreover have "(6371 :: real) \<le> 7198 * (1 - (700 / 6371)\<^sup>2 / 2)"
    by (simp add: power2_eq_square)
  ultimately have "(6371 :: real) \<le> 7198 * cos (700 / 6371)" by simp
  moreover have "(1400 :: real) < pi * 6371" using pi_ge_two by simp
  ultimately show ?thesis
    using assms
    by (simp add: within_horizon_def satellite_view_angle_def satellite_orbit_radius_def
        EARTH_RADIUS_def)
qed

lemma constructibleI:
  assumes hor: "within_horizon s" and "correction_res s \<noteq> 0"
    and "fits_int (c_round (correction_swath s / correction_res s))" and W: "0 < image_width s"
  shows "constructible s"
proof -
  let ?cw = "c_round (correction_swath s / correction_res s)"
  have "in_storage s ?cw (nat (image_width s)) i" if "i < nat ?cw" for i
  proof -
    from that have "0 < ?cw" "0 \<le> int i" "int i < ?cw" by simp_all
    from raw_bin_range [OF hor this W] W show ?thesis
      by (simp add: in_storage_def)
  qed
  then show ?thesis
    using assms by (simp add: constructible_def list_all_iff)
qed

lemma mwts_width:
  "c_round (correction_swath (mwts_settings ts) / correction_res (mwts_settings ts)) = 1609"
  by (simp add: mwts_settings_def c_round_def)

lemma coarse_width:
  "c_round (correction_swath (coarse_settings ts) / correction_res (coarse_settings ts)) = 8"
  by (simp add: coarse_settings_def mwts_settings_def c_round_def)

lemma constructible_mwts: "constructible (mwts_settings ts)"
proof (rule constructibleI)
  show "within_horizon (mwts_settings ts)"
    by (rule within_horizon_1400) (simp_all add: mwts_settings_def)
  show "correction_res (mwts_settings ts) \<noteq> 0" by (simp add: mwts_settings_def)
  show "fits_int (c_round (correction_swath (mwts_settings ts) / correction_res (mwts_settings ts)))"
    by (simp only: mwts_width) (simp add: fits_int_def)
  show "0 < image_width (mwts_settings ts)" by (simp add: mwts_settings_def)
qed

lemma constructible_coarse: "constructible (coarse_settings ts)"
proof (rule constructibleI)
  show "within_horizon (coarse_settings ts)"
    by (rule within_horizon_1400) (simp_all add: coarse_settings_def mwts_settings_def)
  show "correction_res (coarse_settings ts) \<noteq> 0"
    by (simp add: coarse_settings_def mwts_settings_def)
  show "fits_int (c_round (correction_swath (coarse_settings ts) / correction_res (coarse_settings ts)))"
    by (simp only: coarse_width) (simp add: fits_int_def)
  show "0 < image_width (coarse_settings ts)"
    by (simp add: coarse_settings_def mwts_settings_def)
qed


lemma tables_cell_sound:
  assumes c: "constructible s"
    and k: "k < nat (image_width s)"
    and cell: "curvature_correction_factors_inv (curvature_tables s) ! k = Some j"
  shows "0 \<le> j \<and> j < c_round (correction_swath s / correction_res s)
           \<and> raw_bin s (c_round (correction_swath s / correction_res s)) j = int k"
proof -
  let ?cw = "c_round (correction_swath s / correction_res s)"
  from cell have "written_cells s ?cw [0..<nat ?cw] (replicate (nat (image_width s)) None) ! k = Some j"
    by (simp add: curvature_tables_def fresh_def Let_def)
  from written_cells_sound [OF this] k
  have j: "0 \<le> j" "j < int (nat ?cw)" "nat (raw_bin s ?cw j) = k" by simp_all
  then have "nat j < nat ?cw" by linarith
  with c have "in_storage s ?cw (nat (image_width s)) (nat j)"
    by (simp add: constructible_def list_all_iff)
  with j(1) have "0 \<le> raw_bin s ?cw j" by (simp add: in_storage_def)
  with j(3) have "raw_bin s ?cw j = int k" by simp
  moreover from j(1,2) have "j < ?cw" by linarith
  ultimately show ?thesis using j(1) by simp
qed

text \<open>
  Claim C3, as the code has it. After construction the forward table has one entry per
  corrected pixel: its length is the corrected width (swath over resolution, rounded), and
  entry \<open>i\<close> is the raw floating pixel position of corrected index \<open>i\<close>. The inverse table
  is the storage reserved for the raw image width (its \<open>size()\<close> is never raised); it is
  indexed by raw pixel, and every cell that was written holds a corrected index whose
  forward value, cut to an integer, is the index of that cell.
\<close>

theorem table_shapes:
  assumes "LEOScanProjector_new ext s = Inr P"
  shows "corrected_width P = c_round (correction_swath s / correction_res s) \<and>
         length (curvature_correction_factors_fwd P) = nat (corrected_width P) \<and>
         length (curvature_correction_factors_inv P) = nat (image_width s) \<and>
         (\<forall>i < length (curvature_correction_factors_fwd P).
            curvature_correction_factors_fwd P ! i = curvature_pixel s (corrected_width P) (int i)) \<and>
         (\<forall>k < length (curvature_correction_factors_inv P). \<forall>j.
            curvature_correction_factors_inv P ! k = Some j \<longrightarrow>
              0 \<le> j \<and> j < corrected_width P \<and>
              c_trunc (curvature_correction_factors_fwd P ! nat j) = int k)"
proof -
  let ?cw = "c_round (correction_swath s / correction_res s)"
  from assms have c: "constructible s" and P: "P = generateProjections ext (curvature_tables s)"
    by (simp_all add: new_iff)
  have cells: "0 \<le> j \<and> j < ?cw \<and> c_trunc (curvature_correction_factors_fwd (curvature_tables s) ! nat j) = int k"
    if "k < nat (image_width s)" "curvature_correction_factors_inv (curvature_tables s) ! k = Some j"
    for k j
  proof -
    from tables_cell_sound [OF c that]
    have j: "0 \<le> j" "j < ?cw" "raw_bin s ?cw j = int k" by simp_all
    then have "nat j < nat ?cw" by linarith
    from tables_fwd_nth [OF this] j show ?thesis by (simp add: raw_bin_def)
  qed
  show ?thesis
    unfolding P generate_keeps tables_fields
    using cells by (auto simp: tables_fwd_nth)
qed

theorem table_shapes_witness:
  "corrected_width mwts_projector = 1609 \<and>
   length (curvature_correction_factors_fwd mwts_projector) = 1609 \<and>
   length (curvature_correction_factors_inv mwts_projector) = 90"
  using table_shapes [OF new_constructible [OF constructible_mwts], of moving_ext "[1000]"]
  by (simp add: mwts_projector_def mwts_width) (simp add: mwts_settings_def)

text \<open>
  Claim C3 as stated fails: for the settings of the MWTS-2 module the forward table has
  1609 entries, not the raw width of 90, and the inverse table has 90 cells, not the
  corrected width of 1609.
\<close>

theorem table_lengths_swapped:
  "LEOScanProjector_new moving_ext (mwts_settings [1000]) = Inr mwts_projector \<and>
   length (curvature_correction_factors_fwd mwts_projector)
     \<noteq> nat (image_width (mwts_settings [1000])) \<and>
   length (curvature_correction_factors_inv mwts_projector)
     \<noteq> nat (corrected_width mwts_projector)"
proof -
  have "length (curvature_correction_factors_fwd mwts_projector) = 1609"
    "length (curvature_correction_factors_inv mwts_projector) = 90"
    "corrected_width mwts_projector = 1609"
    by (simp_all add: mwts_projector_def generate_keeps tables_fields mwts_width)
       (simp add: mwts_settings_def)
  then show ?thesis
    by (simp add: new_constructible [OF constructible_mwts] mwts_projector_def)
       (simp add: mwts_settings_def)
qed


section \<open>Properties of the tables and of the query\<close>

lemma curvature_pixel_le:
  assumes "within_horizon s" "0 < image_width s" "i \<le> j" "j < nat cw"
  shows "curvature_pixel s cw (int i) \<le> curvature_pixel s cw (int j)"
proof (cases "i = j")
  case True
  then show ?thesis by simp
next
  case False
  with assms(3,4) have "0 < cw" "0 \<le> int i" "int i < int j" "int j < cw" by simp_all
  from curvature_pixel_less [OF assms(1) this assms(2)] show ?thesis by simp
qed

text \<open>
  Claim C5, as the code has it. For every configuration whose swath lies within the horizon
  of the satellite (and with which the constructor can run: a resolution that is not zero,
  a corrected width in the range of \<open>int\<close>, a positive raw width), the construction
  succeeds with every store inside the reserved storage, and the forward table is
  non-decreasing across its index domain.
\<close>

theorem forward_sorted:
  assumes "within_horizon s" "correction_res s \<noteq> 0"
    and "fits_int (c_round (correction_swath s / correction_res s))" "0 < image_width s"
  shows "\<exists>P. LEOScanProjector_new ext s = Inr P \<and> sorted (curvature_correction_factors_fwd P)"
proof -
  let ?cw = "c_round (correction_swath s / correction_res s)"
  have "sorted (map (\<lambda>i. curvature_pixel s ?cw (int i)) [0..<nat ?cw])"
    using curvature_pixel_le [OF assms(1,4)] by (simp add: sorted_iff_nth_mono)
  then have "sorted (curvature_correction_factors_fwd (generateProjections ext (curvature_tables s)))"
    by (simp add: generate_keeps curvature_tables_def fresh_def Let_def)
  with new_constructible [OF constructibleI [OF assms]] show ?thesis by blast
qed

theorem forward_sorted_witness:
  "\<exists>P. LEOScanProjector_new moving_ext (mwts_settings [1000]) = Inr P
        \<and> sorted (curvature_correction_factors_fwd P)"
proof (rule forward_sorted)
  show "within_horizon (mwts_settings [1000])"
    by (rule within_horizon_1400) (simp_all add: mwts_settings_def)
  show "correction_res (mwts_settings [1000]) \<noteq> 0" by (simp add: mwts_settings_def)
  show "fits_int (c_round (correction_swath (mwts_settings [1000]) / correction_res (mwts_settings [1000])))"
    by (simp only: mwts_width) (simp add: fits_int_def)
  show "0 < image_width (mwts_settings [1000])" by (simp add: mwts_settings_def)
qed

lemma sqrt3_bounds: "0 < sqrt 3" "sqrt 3 < 7 / 4"
proof -
  show "0 < sqrt 3" by simp
  have "(3::real) < (7 / 4)\<^sup>2" by (simp add: power2_eq_square)
  then show "sqrt 3 < 7 / 4" by (intro real_less_lsqrt) simp_all
qed

lemma wide_fields:
  "satellite_view_angle wide_settings = 2 * pi / 3"
  "satellite_orbit_radius wide_settings = 7198"
  "image_width wide_settings = 90"
  "correction_res wide_settings \<noteq> 0"
  "c_round (correction_swath wide_settings / correction_res wide_settings) = 4"
  by (simp_all add: wide_settings_def mwts_settings_def satellite_view_angle_def
      satellite_orbit_radius_def EARTH_RADIUS_def c_round_def)

lemma wide_angles:
  "sample_angle wide_settings 4 0 = - (pi / 3)"
  "sample_angle wide_settings 4 1 = - (pi / 6)"
  "sample_angle wide_settings 4 3 = pi / 6"
  by (simp_all add: sample_angle_def wide_fields)

lemma wide_edge: "edge_angle wide_settings = satellite_angle_at wide_settings (pi / 3)"
  by (simp add: edge_angle_eq wide_fields)

lemma wide_edge_range: "0 < edge_angle wide_settings" "edge_angle wide_settings < pi / 2"
proof -
  have "(6371 * (2 * pi / 3) :: real) < pi * 6371" by simp
  then show "0 < edge_angle wide_settings"
    by (intro edge_angle_gt_zero)
       (simp_all add: wide_settings_def mwts_settings_def EARTH_RADIUS_def)
  show "edge_angle wide_settings < pi / 2"
    unfolding wide_edge satellite_angle_at_alt by (rule arctan_ubound)
qed

lemma cross_less:
  fixes a b c d :: real
  assumes "0 < b" "0 < d" "a * d < c * b"
  shows "a / b < c / d"
  using assms by (simp add: field_simps)

lemma wide_beyond_edge:
  "edge_angle wide_settings < satellite_angle_at wide_settings (pi / 6)"
proof -
  note q = sqrt3_bounds
  have d3: "(0::real) < 7198 - 6371 * (1 / 2)" by simp
  have d6: "0 < 7198 - 6371 * (sqrt 3 / 2)" using q(2) by simp
  have "sqrt 3 * sqrt 3 = 3" by simp
  then have "(sqrt 3 / 2) * (7198 - 6371 * (sqrt 3 / 2)) = 3599 * sqrt 3 - 19113 / 4"
    by (simp add: algebra_simps)
  also have "\<dots> < (1 / 2) * (7198 - 6371 * (1 / 2))" using q(2) by simp
  finally have "(sqrt 3 / 2) / (7198 - 6371 * (1 / 2)) < (1 / 2) / (7198 - 6371 * (sqrt 3 / 2))"
    by (intro cross_less [OF d3 d6])
  then have "6371 * ((sqrt 3 / 2) / (7198 - 6371 * (1 / 2)))
               < 6371 * ((1 / 2) / (7198 - 6371 * (sqrt 3 / 2)))"
    by (intro mult_strict_left_mono) simp_all
  then have "6371 * (sqrt 3 / 2) / (7198 - 6371 * (1 / 2))
               < 6371 * (1 / 2) / (7198 - 6371 * (sqrt 3 / 2))"
    by simp
  then show ?thesis
    unfolding wide_edge satellite_angle_at_alt
    by (simp add: arctan_less_iff wide_fields EARTH_RADIUS_def sin_60 cos_60 sin_30 cos_30)
qed

lemma wide_pixels:
  "curvature_pixel wide_settings 4 0 = 0"
  "curvature_pixel wide_settings 4 1 < 0"
  "90 < curvature_pixel wide_settings 4 3"
proof -
  note e = wide_edge_range(1)
  let ?r = "satellite_angle_at wide_settings (pi / 6) / edge_angle wide_settings"
  have r: "1 < ?r" using wide_beyond_edge e by (simp add: less_divide_eq)
  show "curvature_pixel wide_settings 4 0 = 0"
    using e by (simp add: curvature_pixel_eq wide_angles satellite_angle_at_minus flip: wide_edge)
  have "curvature_pixel wide_settings 4 1 = 90 * ((- ?r + 1) / 2)"
    by (simp add: curvature_pixel_eq wide_angles satellite_angle_at_minus wide_fields)
  also have "\<dots> < 0" using r by simp
  finally show "curvature_pixel wide_settings 4 1 < 0" .
  have "90 < 90 * ((?r + 1) / 2)" using r by simp
  also have "\<dots> = curvature_pixel wide_settings 4 3"
    by (simp add: curvature_pixel_eq wide_angles wide_fields)
  finally show "90 < curvature_pixel wide_settings 4 3" .
qed

text \<open>
  Claim C5 as stated fails. With a swath of a third of a turn seen from 827 km the edge
  angle is strictly between 0 and a quarter turn, the corrected width is 4, and the value
  computed for index 1 is below the value computed for index 0; the value for index 3 is
  beyond the raw width, so its store leaves the reserved storage and no table is built.
\<close>

theorem forward_not_sorted_beyond_horizon:
  "0 < edge_angle wide_settings \<and> edge_angle wide_settings < pi / 2 \<and>
   c_round (correction_swath wide_settings / correction_res wide_settings) = 4 \<and>
   curvature_pixel wide_settings 4 1 < curvature_pixel wide_settings 4 0 \<and>
   initCurvatureTable (fresh wide_settings) = Inl OutOfBounds"
proof -
  have "90 \<le> raw_bin wide_settings 4 3"
    using wide_pixels(3) by (simp add: raw_bin_def c_trunc_def le_floor_iff)
  then have "\<not> in_storage wide_settings 4 90 3"
    by (simp add: in_storage_def)
  then have "\<not> constructible wide_settings"
    by (auto simp: constructible_def wide_fields list_all_iff)
  then have "initCurvatureTable (fresh wide_settings) = Inl OutOfBounds"
    by (simp add: initCurvatureTable_fresh wide_fields fits_int_def)
  then show ?thesis
    using wide_edge_range wide_pixels(1,2) by (simp add: wide_fields)
qed


lemma constructed_tables:
  assumes "LEOScanProjector_new ext s = Inr P"
  shows "constructible s"
    and "curvature_correction_factors_fwd P
           = map (\<lambda>i. curvature_pixel s (c_round (correction_swath s / correction_res s)) (int i))
               [0..<nat (c_round (correction_swath s / correction_res s))]"
    and "curvature_correction_factors_inv P
           = written_cells s (c_round (correction_swath s / correction_res s))
               [0..<nat (c_round (correction_swath s / correction_res s))]
               (replicate (nat (image_width s)) None)"
    and "corrected_width P = c_round (correction_swath s / correction_res s)"
    and "settings P = s"
  using assms
  by (simp_all add: new_iff generate_keeps curvature_tables_def fresh_def Let_def)

text \<open>
  Claim C6, as the code has it. For every index \<open>i\<close> of the forward table, the cell of the
  inverse table at the forward value of \<open>i\<close> cut to an integer holds the last index \<open>j\<close> whose
  forward value is cut to the same integer: \<open>j\<close> is not below \<open>i\<close>, and going through the
  forward table from \<open>j\<close> leads to the same raw pixel, and no index after \<open>j\<close> does. The
  round trip returns to the raw pixel; \<open>j\<close> need not be within one of \<open>i\<close>.
\<close>

theorem inverse_holds_last_index:
  assumes new: "LEOScanProjector_new ext s = Inr P"
    and i: "i < length (curvature_correction_factors_fwd P)"
  shows "\<exists>j. curvature_correction_factors_inv P ! nat (c_trunc (curvature_correction_factors_fwd P ! i))
               = Some (int j) \<and>
             i \<le> j \<and> j < length (curvature_correction_factors_fwd P) \<and>
             c_trunc (curvature_correction_factors_fwd P ! j)
               = c_trunc (curvature_correction_factors_fwd P ! i) \<and>
             (\<forall>j'. j < j' \<and> j' < length (curvature_correction_factors_fwd P) \<longrightarrow>
                c_trunc (curvature_correction_factors_fwd P ! j')
                  \<noteq> c_trunc (curvature_correction_factors_fwd P ! i))"
proof -
  let ?cw = "c_round (correction_swath s / correction_res s)"
  let ?n = "nat ?cw"
  let ?W = "nat (image_width s)"
  note t = constructed_tables [OF new]
  from i have i': "i < ?n" by (simp add: t(2))
  have fwd: "c_trunc (curvature_correction_factors_fwd P ! a) = raw_bin s ?cw (int a)"
    if "a < ?n" for a
    using that by (simp add: t(2) raw_bin_def)
  have st: "0 \<le> raw_bin s ?cw (int a) \<and> nat (raw_bin s ?cw (int a)) < ?W" if "a < ?n" for a
  proof -
    from t(1) that have "in_storage s ?cw ?W a"
      by (simp add: constructible_def list_all_iff)
    then have "0 \<le> raw_bin s ?cw (int a)" "raw_bin s ?cw (int a) < int ?W"
      unfolding in_storage_def by blast+
    then show ?thesis by linarith
  qed
  have eq_iff: "nat (raw_bin s ?cw (int a)) = nat (raw_bin s ?cw (int b))
                  \<longleftrightarrow> raw_bin s ?cw (int a) = raw_bin s ?cw (int b)"
    if "a < ?n" "b < ?n" for a b
    using st [OF that(1)] st [OF that(2)] by auto
  from st [OF i'] have "nat (raw_bin s ?cw (int i)) < length (replicate ?W (None :: int option))"
    by simp
  from written_cells_last [OF i' this]
  obtain j where j: "i \<le> j" "j < ?n"
    "nat (raw_bin s ?cw (int j)) = nat (raw_bin s ?cw (int i))"
    "written_cells s ?cw [0..<?n] (replicate ?W None) ! nat (raw_bin s ?cw (int i)) = Some (int j)"
    "\<forall>j'. j < j' \<and> j' < ?n \<longrightarrow> nat (raw_bin s ?cw (int j')) \<noteq> nat (raw_bin s ?cw (int i))"
    by blast
  have "curvature_correction_factors_inv P ! nat (c_trunc (curvature_correction_factors_fwd P ! i))
          = Some (int j)"
    using j(4) by (simp add: fwd [OF i'] t(3))
  moreover have "c_trunc (curvature_correction_factors_fwd P ! j)
                   = c_trunc (curvature_correction_factors_fwd P ! i)"
    using j(3) eq_iff [OF j(2) i'] by (simp add: fwd [OF i'] fwd [OF j(2)])
  moreover have "c_trunc (curvature_correction_factors_fwd P ! j')
                   \<noteq> c_trunc (curvature_correction_factors_fwd P ! i)"
    if "j < j'" "j' < length (curvature_correction_factors_fwd P)" for j'
  proof -
    from that(2) have j': "j' < ?n" by (simp add: t(2))
    from j(5) that(1) j' have "nat (raw_bin s ?cw (int j')) \<noteq> nat (raw_bin s ?cw (int i))"
      by blast
    then show ?thesis
      using eq_iff [OF j' i'] by (simp add: fwd [OF i'] fwd [OF j'])
  qed
  moreover have "j < length (curvature_correction_factors_fwd P)"
    using j(2) by (simp add: t(2))
  ultimately show ?thesis using j(1) by blast
qed

lemma curvature_pixel_first:
  assumes "within_horizon s" "0 < cw"
  shows "curvature_pixel s cw 0 = 0"
  using edge_angle_pos_horizon [OF assms(1)] assms(2)
  by (simp add: curvature_pixel_eq sample_angle_first satellite_angle_at_minus flip: edge_angle_eq)

lemma within_horizon_coarse: "within_horizon (coarse_settings ts)"
  by (rule within_horizon_1400) (simp_all add: coarse_settings_def mwts_settings_def)

lemma coarse_middle: "curvature_pixel (coarse_settings ts) 8 4 = 1"
  by (simp add: curvature_pixel_eq sample_angle_def satellite_angle_at_zero coarse_settings_def)

lemma coarse_bins:
  "i \<in> {0, 1, 2, 3} \<Longrightarrow> raw_bin (coarse_settings ts) 8 i = 0"
  "i \<in> {4, 5, 6, 7} \<Longrightarrow> raw_bin (coarse_settings ts) 8 i = 1"
proof -
  note h = within_horizon_coarse [of ts]
  have W: "0 < image_width (coarse_settings ts)" "real_of_int (image_width (coarse_settings ts)) = 2"
    by (simp_all add: coarse_settings_def)
  {
    assume i: "i \<in> {0, 1, 2, 3}"
    then have r: "0 \<le> i" "i < 4" "i < 8" by auto
    have "0 \<le> curvature_pixel (coarse_settings ts) 8 i"
      using r by (intro curvature_pixel_range(1) [OF h _ _ _ W(1)]) simp_all
    moreover have "curvature_pixel (coarse_settings ts) 8 i < curvature_pixel (coarse_settings ts) 8 4"
      using r by (intro curvature_pixel_less [OF h _ _ _ _ W(1)]) simp_all
    ultimately show "raw_bin (coarse_settings ts) 8 i = 0"
      by (simp add: raw_bin_def c_trunc_def coarse_middle floor_eq_iff)
  }
  {
    assume i: "i \<in> {4, 5, 6, 7}"
    then have r: "4 \<le> i" "0 \<le> i" "i < 8" by auto
    have "curvature_pixel (coarse_settings ts) 8 4 \<le> curvature_pixel (coarse_settings ts) 8 i"
    proof (cases "i = 4")
      case True
      then show ?thesis by simp
    next
      case False
      with r have "4 < i" by simp
      then have "curvature_pixel (coarse_settings ts) 8 4 < curvature_pixel (coarse_settings ts) 8 i"
        using r by (intro curvature_pixel_less [OF h _ _ _ _ W(1)]) simp_all
      then show ?thesis by simp
    qed
    moreover have "curvature_pixel (coarse_settings ts) 8 i < 2"
      using curvature_pixel_range(2) [OF h _ r(2,3) W(1)] W(2) by simp
    ultimately show "raw_bin (coarse_settings ts) 8 i = 1"
      by (simp add: raw_bin_def c_trunc_def coarse_middle floor_eq_iff)
  }
qed

lemma upt_8: "[0..<8] = [0, 1, 2, 3, 4, 5, 6, 7]"
  by (simp add: upt_rec)

lemma coarse_tables:
  "curvature_correction_factors_inv (curvature_tables (coarse_settings ts)) = [Some 3, Some 7]"
  "length (curvature_correction_factors_fwd (curvature_tables (coarse_settings ts))) = 8"
  "curvature_correction_factors_fwd (curvature_tables (coarse_settings ts)) ! 0 = 0"
  "corrected_width (curvature_tables (coarse_settings ts)) = 8"
proof -
  have W: "nat (image_width (coarse_settings ts)) = 2" by (simp add: coarse_settings_def)
  have two: "replicate 2 (None :: int option) = [None, None]"
    by (simp add: numeral_2_eq_2)
  show "curvature_correction_factors_inv (curvature_tables (coarse_settings ts)) = [Some 3, Some 7]"
    by (simp add: curvature_tables_def fresh_def Let_def coarse_width W two upt_8
        written_cells_def coarse_bins)
  show "length (curvature_correction_factors_fwd (curvature_tables (coarse_settings ts))) = 8"
    by (simp add: tables_fields coarse_width)
  have "curvature_correction_factors_fwd (curvature_tables (coarse_settings ts)) ! 0
          = curvature_pixel (coarse_settings ts) 8 (int 0)"
    using tables_fwd_nth [of 0 "coarse_settings ts"] by (simp add: coarse_width)
  then show "curvature_correction_factors_fwd (curvature_tables (coarse_settings ts)) ! 0 = 0"
    by (simp add: curvature_pixel_first [OF within_horizon_coarse])
  show "corrected_width (curvature_tables (coarse_settings ts)) = 8"
    by (simp add: tables_fields coarse_width)
qed

theorem inverse_holds_last_index_witness:
  "\<exists>j. curvature_correction_factors_inv coarse_projector
           ! nat (c_trunc (curvature_correction_factors_fwd coarse_projector ! 0)) = Some (int j) \<and>
        j < 8 \<and>
        c_trunc (curvature_correction_factors_fwd coarse_projector ! j)
          = c_trunc (curvature_correction_factors_fwd coarse_projector ! 0)"
  using inverse_holds_last_index [OF new_constructible [OF constructible_coarse],
      of 0 moving_ext "[1000]"]
  by (auto simp: coarse_projector_def generate_keeps coarse_tables)

text \<open>
  Claim C6 as stated fails: with a raw width of 2 and a corrected width of 8, the forward
  table records 0 for index 0, and the inverse table at the nearest bin of 0 holds 3.
\<close>

theorem round_trip_off_by_three:
  "LEOScanProjector_new moving_ext (coarse_settings [1000]) = Inr coarse_projector \<and>
   curvature_correction_factors_fwd coarse_projector ! 0 = 0 \<and>
   curvature_correction_factors_inv coarse_projector
     ! nat (c_round (curvature_correction_factors_fwd coarse_projector ! 0)) = Some 3 \<and>
   \<not> \<bar>3 - 0\<bar> \<le> (1 :: int)"
  by (simp add: new_constructible [OF constructible_coarse] coarse_projector_def generate_keeps
      coarse_tables c_round_def)


lemma scale_to_projection_eq:
  "scale_to_projection s pj fp corr_x width = Forwarded pj (spec_coordinate s width corr_x fp) 0"
  by (simp add: scale_to_projection_def spec_coordinate_def Let_def)

lemma constructed_lines:
  assumes "LEOScanProjector_new ext s = Inr P"
  shows "projs P = map (line_projection ext s) [0..<length (utc_timestamps s)]"
    and "sat_footprints P = map (\<lambda>scan. footprint (line_orbit ext s scan)) [0..<length (utc_timestamps s)]"
  using assms
  by (simp_all add: new_iff generateProjections_eq tables_fields)

text \<open>
  Claim C7. For every query in range on a constructed projector (a line index below the
  number of scan lines, a pixel below the raw width, neither negative, and with curvature
  correction a cell of the inverse table that was written), \<open>inverse\<close> calls the primitive
  of the projection of that line with the coordinate of the specification: the pixel, or
  the content of the inverse table at the pixel, mirrored when the scan is inverted,
  recentred on half the reference width, shifted by the pixel offset, divided by the scale
  times the half width, and multiplied by the instrument swath over the footprint of that
  line; the second coordinate is 0.
\<close>

theorem projection_coordinate:
  assumes new: "LEOScanProjector_new ext s = Inr P"
    and y: "0 \<le> img_y" "img_y < int (length (utc_timestamps s))"
    and x: "0 \<le> img_x" "img_x < image_width s"
    and cell: "correct \<longrightarrow> curvature_correction_factors_inv P ! nat img_x = Some v"
  shows "inverse_geo P img_x img_y correct =
           Forwarded (line_projection ext s (nat img_y))
             (spec_coordinate s
                (if correct then real_of_int (corrected_width P) else real_of_int (image_width s))
                (if correct then real_of_int v else real_of_int img_x)
                (footprint (line_orbit ext s (nat img_y))))
             0"
proof -
  note l = constructed_lines [OF new]
  note t = constructed_tables [OF new]
  from y have ny: "nat img_y < length (utc_timestamps s)" by simp
  have len: "length (projs P) = length (utc_timestamps s)"
    "length (sat_footprints P) = length (utc_timestamps s)"
    "length (curvature_correction_factors_inv P) = nat (image_width s)"
    by (simp_all add: l t(3))
  have nth: "projs P ! nat img_y = line_projection ext s (nat img_y)"
    "sat_footprints P ! nat img_y = footprint (line_orbit ext s (nat img_y))"
    using ny by (simp_all add: l)
  show ?thesis
  proof (cases correct)
    case True
    with cell have "curvature_correction_factors_inv P ! nat img_x = Some v" by simp
    with True x y show ?thesis
      by (simp add: inverse_geo_def len nth scale_to_projection_eq t(5))
  next
    case False
    with x y show ?thesis
      by (simp add: inverse_geo_def len nth scale_to_projection_eq t(5))
  qed
qed

lemma moving_footprint: "footprint (line_orbit moving_ext s scan) = 3000"
  by (simp add: line_orbit_def propagate_def moving_ext_def)

theorem projection_coordinate_witness:
  "inverse_geo coarse_projector 0 0 True =
     Forwarded (line_projection moving_ext (coarse_settings [1000]) 0)
       (spec_coordinate (coarse_settings [1000]) 8 3 3000) 0"
  using projection_coordinate [OF new_constructible [OF constructible_coarse],
      of 0 "[1000]" 0 True moving_ext 3]
  by (simp add: coarse_projector_def generate_keeps coarse_tables moving_footprint)
     (simp add: coarse_settings_def mwts_settings_def)

text \<open>
  Claim C1 fails on the code at a line index equal to the number of scan lines. The
  projector built for one scan line has one projection and one footprint; the query for
  pixel 0 of line 1 passes the test \<open>img_y > projs.size()\<close> and reads \<open>projs[1]\<close> and
  \<open>sat_footprints[1]\<close>, one past the end of both vectors.
\<close>

theorem inverse_reads_past_last_line:
  "LEOScanProjector_new moving_ext (mwts_settings [1000]) = Inr mwts_projector \<and>
   length (projs mwts_projector) = 1 \<and>
   length (sat_footprints mwts_projector) = 1 \<and>
   inverse_geo mwts_projector 0 1 False = OutOfBoundsRead"
proof -
  have new: "LEOScanProjector_new moving_ext (mwts_settings [1000]) = Inr mwts_projector"
    by (simp add: new_constructible [OF constructible_mwts] mwts_projector_def)
  have len: "length (projs mwts_projector) = 1" "length (sat_footprints mwts_projector) = 1"
    by (simp_all add: constructed_lines [OF new]) (simp_all add: mwts_settings_def)
  have "image_width (settings mwts_projector) = 90"
    by (simp add: constructed_tables(5) [OF new]) (simp add: mwts_settings_def)
  then have "inverse_geo mwts_projector 0 1 False = OutOfBoundsRead"
    by (simp add: inverse_geo_def len)
  with new len show ?thesis by simp
qed

end
